theory Spec2Isabelle
  imports Complex_Main "HOL-Library.Sublist"
begin

section \<open>Strings\<close>

text \<open>
  A JavaScript string is modelled as a \<^typ>\<open>string\<close>: a list of 8-bit code units, the
  Latin-1 range of UTF-16. The helpers below are the \<^verbatim>\<open>String.prototype\<close> methods
  the modelled functions call.
\<close>

definition nl :: char where
  "nl = CHR 0x0A"

text \<open>White space and line terminators as \<^verbatim>\<open>trim\<close> and the class \<^verbatim>\<open>\s\<close> see them.\<close>

definition isSpace :: "char \<Rightarrow> bool" where
  "isSpace c = (of_char c \<in> {9, 10, 11, 12, 13, 32, 160 :: nat})"

definition isLineTerminator :: "char \<Rightarrow> bool" where
  "isLineTerminator c = (of_char c \<in> {10, 13 :: nat})"

text \<open>The class \<^verbatim>\<open>\w\<close>: letters, digits and the underscore.\<close>

definition isWord :: "char \<Rightarrow> bool" where
  "isWord c = (let n = (of_char c :: nat) in
     (48 \<le> n \<and> n \<le> 57) \<or> (65 \<le> n \<and> n \<le> 90) \<or> n = 95 \<or> (97 \<le> n \<and> n \<le> 122))"

definition toLowerChar :: "char \<Rightarrow> char" where
  "toLowerChar c = (let n = (of_char c :: nat) in
     if (65 \<le> n \<and> n \<le> 90) \<or> (192 \<le> n \<and> n \<le> 222 \<and> n \<noteq> 215)
     then char_of (n + 32) else c)"

definition toLowerCase :: "string \<Rightarrow> string" where
  "toLowerCase s = map toLowerChar s"

definition toUpperAscii :: "char \<Rightarrow> char" where
  "toUpperAscii c = (let n = (of_char c :: nat) in
     if 97 \<le> n \<and> n \<le> 122 then char_of (n - 32) else c)"

definition trimStart :: "string \<Rightarrow> string" where
  "trimStart s = dropWhile isSpace s"

definition trimEnd :: "string \<Rightarrow> string" where
  "trimEnd s = rev (dropWhile isSpace (rev s))"

definition trim :: "string \<Rightarrow> string" where
  "trim s = trimEnd (trimStart s)"

text \<open>\<^verbatim>\<open>s.includes(k)\<close>: \<open>k\<close> occurs in \<open>s\<close> as a contiguous substring.\<close>

fun includesStr :: "string \<Rightarrow> string \<Rightarrow> bool" where
  "includesStr [] k = (k = [])"
| "includesStr (c # s) k = (prefix k (c # s) \<or> includesStr s k)"

definition startsWith :: "string \<Rightarrow> string \<Rightarrow> bool" where
  "startsWith s k = prefix k s"

definition endsWith :: "string \<Rightarrow> string \<Rightarrow> bool" where
  "endsWith s k = suffix k s"

text \<open>\<^verbatim>\<open>s.split(c)\<close> for a one-character separator; the result is never empty.\<close>

fun splitAcc :: "char \<Rightarrow> string \<Rightarrow> string \<Rightarrow> string list" where
  "splitAcc c acc [] = [rev acc]"
| "splitAcc c acc (x # xs) =
     (if x = c then rev acc # splitAcc c [] xs else splitAcc c (x # acc) xs)"

definition split :: "string \<Rightarrow> char \<Rightarrow> string list" where
  "split s c = splitAcc c [] s"

text \<open>\<^verbatim>\<open>s.indexOf(c)\<close> for one character: \<open>-1\<close> when it does not occur.\<close>

fun indexOfFrom :: "int \<Rightarrow> char \<Rightarrow> string \<Rightarrow> int" where
  "indexOfFrom i c [] = -1"
| "indexOfFrom i c (x # xs) = (if x = c then i else indexOfFrom (i + 1) c xs)"

definition indexOf :: "string \<Rightarrow> char \<Rightarrow> int" where
  "indexOf s c = indexOfFrom 0 c s"

section \<open>Regular expressions\<close>

text \<open>
  The source scans text with JavaScript regular expressions. They are modelled by a
  backtracking matcher with the priorities of the language: the first alternative first, a
  greedy quantifier longest first, a lazy one shortest first. A pattern is a \<open>regex\<close>
  term that follows the source pattern piece by piece; quantifiers range over character
  classes, which is all the patterns of the source need.
\<close>

datatype citem = Ch char | ClsSpace | ClsNotSpace | ClsWord

fun inItem :: "citem \<Rightarrow> char \<Rightarrow> bool" where
  "inItem (Ch d) c = (c = d)"
| "inItem ClsSpace c = isSpace c"
| "inItem ClsNotSpace c = (\<not> isSpace c)"
| "inItem ClsWord c = isWord c"

datatype cclass = OneOf "citem list" | NoneOf "citem list"

fun inClass :: "cclass \<Rightarrow> char \<Rightarrow> bool" where
  "inClass (OneOf items) c = list_ex (\<lambda>i. inItem i c) items"
| "inClass (NoneOf items) c = (\<not> list_ex (\<lambda>i. inItem i c) items)"

text \<open>
  \<open>Star c g\<close> is \<^verbatim>\<open>c*\<close> and \<open>Plus c g\<close> is \<^verbatim>\<open>c+\<close> for a class \<open>c\<close>, greedy when
  \<open>g\<close> holds and lazy (\<^verbatim>\<open>*?\<close>) otherwise; \<open>Opt\<close> is the greedy \<^verbatim>\<open>?\<close>;
  \<open>Group n r\<close> is the \<open>n\<close>-th capturing group. \<open>GroupEnd\<close> is internal: it marks on
  the continuation where a group that started at a given input ends.
\<close>

datatype regex =
    Lit string
  | Class cclass
  | Bol
  | Eol
  | Seq regex regex
  | Alt regex regex
  | Opt regex
  | Star cclass bool
  | Plus cclass bool
  | Group nat regex
  | GroupEnd nat string

record flags =
  ignoreCase :: bool
  multiline :: bool

definition noFlags :: flags where
  "noFlags = \<lparr>ignoreCase = False, multiline = False\<rparr>"

definition flagsIM :: flags where
  "flagsIM = \<lparr>ignoreCase = True, multiline = True\<rparr>"

text \<open>The literals of the source patterns are ASCII, so ASCII case folding decides \<^verbatim>\<open>/i\<close>.\<close>

definition chEq :: "flags \<Rightarrow> char \<Rightarrow> char \<Rightarrow> bool" where
  "chEq f c x = (if ignoreCase f then toUpperAscii c = toUpperAscii x else c = x)"

text \<open>\<open>p\<close> is the character before the current position, \<open>None\<close> at the start of the input.\<close>

definition atLineStart :: "flags \<Rightarrow> char option \<Rightarrow> bool" where
  "atLineStart f p = (case p of None \<Rightarrow> True | Some c \<Rightarrow> multiline f \<and> isLineTerminator c)"

definition atLineEnd :: "flags \<Rightarrow> string \<Rightarrow> bool" where
  "atLineEnd f s = (case s of [] \<Rightarrow> True | c # _ \<Rightarrow> multiline f \<and> isLineTerminator c)"

type_synonym captures = "(nat \<times> string) list"

fun weight :: "regex \<Rightarrow> nat" where
  "weight (Seq a b) = Suc (weight a + weight b)"
| "weight (Alt a b) = Suc (weight a + weight b)"
| "weight (Opt a) = Suc (weight a)"
| "weight (Plus c g) = 2"
| "weight (Group n a) = Suc (Suc (weight a))"
| "weight _ = 1"

text \<open>
  \<open>rx_run f k p s caps\<close> matches the patterns of the continuation \<open>k\<close>, in sequence, at
  the head of \<open>s\<close>; it returns the input left after the match and the captures.
\<close>

function (sequential) rx_run ::
  "flags \<Rightarrow> regex list \<Rightarrow> char option \<Rightarrow> string \<Rightarrow> captures \<Rightarrow> (string \<times> captures) option"
where
  "rx_run f [] p s caps = Some (s, caps)"
| "rx_run f (Lit [] # k) p s caps = rx_run f k p s caps"
| "rx_run f (Lit (c # cs) # k) p [] caps = None"
| "rx_run f (Lit (c # cs) # k) p (x # xs) caps =
     (if chEq f c x then rx_run f (Lit cs # k) (Some x) xs caps else None)"
| "rx_run f (Class cc # k) p [] caps = None"
| "rx_run f (Class cc # k) p (x # xs) caps =
     (if inClass cc x then rx_run f k (Some x) xs caps else None)"
| "rx_run f (Bol # k) p s caps = (if atLineStart f p then rx_run f k p s caps else None)"
| "rx_run f (Eol # k) p s caps = (if atLineEnd f s then rx_run f k p s caps else None)"
| "rx_run f (Seq a b # k) p s caps = rx_run f (a # b # k) p s caps"
| "rx_run f (Alt a b # k) p s caps =
     (case rx_run f (a # k) p s caps of
        Some r \<Rightarrow> Some r
      | None \<Rightarrow> rx_run f (b # k) p s caps)"
| "rx_run f (Opt a # k) p s caps =
     (case rx_run f (a # k) p s caps of
        Some r \<Rightarrow> Some r
      | None \<Rightarrow> rx_run f k p s caps)"
| "rx_run f (Star cc True # k) p [] caps = rx_run f k p [] caps"
| "rx_run f (Star cc True # k) p (x # xs) caps =
     (if inClass cc x then
        (case rx_run f (Star cc True # k) (Some x) xs caps of
           Some r \<Rightarrow> Some r
         | None \<Rightarrow> rx_run f k p (x # xs) caps)
      else rx_run f k p (x # xs) caps)"
| "rx_run f (Star cc False # k) p [] caps = rx_run f k p [] caps"
| "rx_run f (Star cc False # k) p (x # xs) caps =
     (case rx_run f k p (x # xs) caps of
        Some r \<Rightarrow> Some r
      | None \<Rightarrow>
          if inClass cc x then rx_run f (Star cc False # k) (Some x) xs caps else None)"
| "rx_run f (Plus cc g # k) p [] caps = None"
| "rx_run f (Plus cc g # k) p (x # xs) caps =
     (if inClass cc x then rx_run f (Star cc g # k) (Some x) xs caps else None)"
| "rx_run f (Group n a # k) p s caps = rx_run f (a # GroupEnd n s # k) p s caps"
| "rx_run f (GroupEnd n s0 # k) p s caps =
     rx_run f k p s ((n, take (length s0 - length s) s0) # caps)"
  by pat_completeness auto
termination
  by (relation "measures [\<lambda>(f, k, p, s, caps). length s,
                          \<lambda>(f, k, p, s, caps). sum_list (map weight k)]") auto

text \<open>
  A match as \<^verbatim>\<open>RegExp.prototype.exec\<close> reports it: the index where it starts, the
  matched text, the captures, and (for the model) the input after the match.
\<close>

record rx_match =
  index :: nat
  matched :: string
  groups :: captures
  rest :: string

definition group :: "rx_match \<Rightarrow> nat \<Rightarrow> string option" where
  "group m n = map_of (groups m) n"

text \<open>The leftmost match at or after the current position, which has index \<open>i\<close>.\<close>

fun rx_search :: "flags \<Rightarrow> regex \<Rightarrow> char option \<Rightarrow> string \<Rightarrow> nat \<Rightarrow> rx_match option" where
  "rx_search f r p [] i =
     (case rx_run f [r] p [] [] of
        Some (t, caps) \<Rightarrow> Some \<lparr>index = i, matched = [], groups = caps, rest = t\<rparr>
      | None \<Rightarrow> None)"
| "rx_search f r p (x # xs) i =
     (case rx_run f [r] p (x # xs) [] of
        Some (t, caps) \<Rightarrow>
          Some \<lparr>index = i, matched = take (length (x # xs) - length t) (x # xs),
                groups = caps, rest = t\<rparr>
      | None \<Rightarrow> rx_search f r (Some x) xs (Suc i))"

text \<open>\<^verbatim>\<open>s.match(r)\<close> and \<^verbatim>\<open>r.test(s)\<close> for a pattern without the \<^verbatim>\<open>g\<close> flag.\<close>

definition rx_match_first :: "flags \<Rightarrow> regex \<Rightarrow> string \<Rightarrow> rx_match option" where
  "rx_match_first f r s = rx_search f r None s 0"

definition rx_test :: "flags \<Rightarrow> regex \<Rightarrow> string \<Rightarrow> bool" where
  "rx_test f r s = (rx_match_first f r s \<noteq> None)"

text \<open>\<^verbatim>\<open>s.replace(r, "")\<close> for a pattern without the \<^verbatim>\<open>g\<close> flag: the first match is cut out.\<close>

definition rx_remove_first :: "flags \<Rightarrow> regex \<Rightarrow> string \<Rightarrow> string" where
  "rx_remove_first f r s =
     (case rx_match_first f r s of
        None \<Rightarrow> s
      | Some m \<Rightarrow> take (index m) s @ rest m)"

lemma rx_run_suffix:
  "rx_run f k p s caps = Some (t, caps') \<Longrightarrow> suffix t s"
  by (induction f k p s caps rule: rx_run.induct)
     (auto split: if_splits option.splits intro: suffix_ConsI)

lemma rx_search_rest_shorter:
  "rx_search f r p s i = Some m \<Longrightarrow> matched m \<noteq> [] \<Longrightarrow> length (rest m) < length s"
proof (induction s arbitrary: p i)
  case Nil
  then show ?case by (auto split: option.splits)
next
  case (Cons x xs)
  show ?case
  proof (cases "rx_run f [r] p (x # xs) []")
    case None
    with Cons.prems have "rx_search f r (Some x) xs (Suc i) = Some m" by simp
    from Cons.IH [OF this Cons.prems(2)] show ?thesis by simp
  next
    case (Some tc)
    obtain t caps where tc: "tc = (t, caps)" by (cases tc)
    from Some tc Cons.prems(1)
    have m: "rest m = t" "matched m = take (length (x # xs) - length t) (x # xs)"
      by auto
    from Some tc have "suffix t (x # xs)" by (auto dest: rx_run_suffix)
    then have "length t \<le> length (x # xs)" by (rule suffix_length_le)
    moreover from m Cons.prems(2) have "length t \<noteq> length (x # xs)" by auto
    ultimately show ?thesis using m by simp
  qed
qed

text \<open>
  The loop \<^verbatim>\<open>while ((match = regex.exec(text)) !== null) { ... }\<close> over a pattern with
  the \<^verbatim>\<open>g\<close> flag: every search starts where the last match ended. After an empty
  match \<^verbatim>\<open>lastIndex\<close> does not move and the loop of the source never ends: that is the
  value \<open>None\<close>.
\<close>

function rx_exec_all ::
  "flags \<Rightarrow> regex \<Rightarrow> char option \<Rightarrow> string \<Rightarrow> nat \<Rightarrow> rx_match list option"
where
  "rx_exec_all f r p s i =
     (case rx_search f r p s i of
        None \<Rightarrow> Some []
      | Some m \<Rightarrow>
          if matched m = [] then None
          else (case rx_exec_all f r (Some (last (matched m))) (rest m)
                       (index m + length (matched m)) of
                  None \<Rightarrow> None
                | Some ms \<Rightarrow> Some (m # ms)))"
  by pat_completeness auto
termination
  by (relation "measure (\<lambda>(f, r, p, s, i). length s)")
     (auto dest: rx_search_rest_shorter)

declare rx_exec_all.simps [simp del]

section \<open>Task complexity analyzer (smartAgent.ts)\<close>

datatype TaskComplexity = simple | medium | complex

datatype AgentMode = instant | smart | deep

record TaskAnalysis =
  complexity :: TaskComplexity
  mode :: AgentMode
  needsContext :: bool
  needsAnalysis :: bool
  confidence :: real

definition simpleKeywords :: "string list" where
  "simpleKeywords =
     [''fix typo'', ''add comment'', ''rename variable'', ''format'', ''prettier'',
      ''indent'', ''remove console'', ''add semicolon'', ''fix syntax'']"

definition mediumKeywords :: "string list" where
  "mediumKeywords =
     [''refactor'', ''optimize'', ''improve'', ''add error handling'', ''add types'',
      ''convert to'', ''update'', ''modify'']"

definition complexKeywords :: "string list" where
  "complexKeywords =
     [''implement'', ''create'', ''build'', ''design'', ''architect'', ''restructure'',
      ''migrate'', ''rewrite'']"

definition analyzeTaskComplexity :: "string \<Rightarrow> string \<Rightarrow> TaskAnalysis" where
  "analyzeTaskComplexity userPrompt selectedCode =
     (let prompt = toLowerCase userPrompt;
          codeLines = length (split selectedCode nl)
      in if list_ex (\<lambda>k. includesStr prompt k) simpleKeywords \<or> codeLines < 10 then
           \<lparr>complexity = simple, mode = instant, needsContext = False,
            needsAnalysis = False, confidence = 9 / 10\<rparr>
         else if list_ex (\<lambda>k. includesStr prompt k) complexKeywords \<or> codeLines > 100
                 \<or> length prompt > 100 then
           \<lparr>complexity = complex, mode = deep, needsContext = True,
            needsAnalysis = True, confidence = 85 / 100\<rparr>
         else
           \<lparr>complexity = medium, mode = smart, needsContext = True,
            needsAnalysis = False, confidence = 8 / 10\<rparr>)"

section \<open>Code validator (codeValidator.ts)\<close>

text \<open>
  Two records of the source share field names, so the fields of \<^verbatim>\<open>CodeError\<close> carry
  the prefix \<open>e_\<close> and those of \<^verbatim>\<open>CodeWarning\<close> the prefix \<open>w_\<close>.
\<close>

record CodeError =
  e_line :: int
  e_column :: int
  e_message :: string
  e_severity :: string
  e_code :: "string option"
  e_suggestion :: "string option"

record CodeWarning =
  w_line :: int
  w_message :: string
  w_type :: string

record ValidationResult =
  isValid :: bool
  errors :: "CodeError list"
  warnings :: "CodeWarning list"
  suggestions :: "string list"
  score :: int

text \<open>A call of code outside the repository either returns or throws.\<close>

datatype 'a outcome = Returned 'a | Threw string

text \<open>
  The TypeScript compiler and Node's \<^verbatim>\<open>path\<close> module are libraries, not code of the
  repository: they are parameters of the model. \<open>parseDiagnostics lib fileName code kind\<close>
  stands for \<^verbatim>\<open>ts.createSourceFile(...).parseDiagnostics\<close>; a diagnostic carries
  \<open>d_position\<close>, the line and character of its \<^verbatim>\<open>start\<close> in its \<^verbatim>\<open>file\<close> when both
  are set, its flattened message text and its code in decimal.
\<close>

datatype ScriptKind = TSX | TS | JS

record Diagnostic =
  d_position :: "(int \<times> int) option"
  d_messageText :: string
  d_code :: string

record library =
  parseDiagnostics :: "string \<Rightarrow> string \<Rightarrow> ScriptKind \<Rightarrow> Diagnostic list outcome"
  extname :: "string \<Rightarrow> string"
  basename :: "string \<Rightarrow> string"

text \<open>\<open>quoted s\<close> is \<open>s\<close> between single quotes, for the messages that contain them.\<close>

definition quoted :: "string \<Rightarrow> string" where
  "quoted s = [CHR 0x27] @ s @ [CHR 0x27]"

definition calculateScore :: "CodeError list \<Rightarrow> CodeWarning list \<Rightarrow> int" where
  "calculateScore errs warns =
     (let score = 100;
          score = score - int (length errs) * 10;
          score = score - int (length warns) * 2
      in max 0 (min 100 score))"

subsection \<open>Basic validation\<close>

record brackets =
  braces :: int
  squares :: int
  parens :: int

fun countChar :: "brackets \<Rightarrow> char \<Rightarrow> brackets" where
  "countChar b c =
     (if c = CHR ''{'' then b\<lparr>braces := braces b + 1\<rparr>
      else if c = CHR ''['' then b\<lparr>squares := squares b + 1\<rparr>
      else if c = CHR ''('' then b\<lparr>parens := parens b + 1\<rparr>
      else if c = CHR ''}'' then b\<lparr>braces := braces b - 1\<rparr>
      else if c = CHR '']'' then b\<lparr>squares := squares b - 1\<rparr>
      else if c = CHR '')'' then b\<lparr>parens := parens b - 1\<rparr>
      else b)"

text \<open>The body of \<^verbatim>\<open>lines.forEach((line, index) => ...)\<close>, with the state it updates.\<close>

fun basicLines ::
  "int \<Rightarrow> string list \<Rightarrow> brackets \<Rightarrow> CodeWarning list \<Rightarrow> brackets \<times> CodeWarning list"
where
  "basicLines i [] b warns = (b, warns)"
| "basicLines i (line # ls) b warns =
     (let b = fold (\<lambda>c b. countChar b c) line b;
          warns = (if length line > 200
                   then warns @ [\<lparr>w_line = i + 1,
                                  w_message = ''Line is very long (>200 characters)'',
                                  w_type = ''code-quality''\<rparr>]
                   else warns);
          warns = (if endsWith line '' ''
                   then warns @ [\<lparr>w_line = i + 1, w_message = ''Trailing whitespace'',
                                  w_type = ''formatting''\<rparr>]
                   else warns)
      in basicLines (i + 1) ls b warns)"

definition unmatched :: "string \<Rightarrow> string \<Rightarrow> CodeError" where
  "unmatched what closing =
     \<lparr>e_line = 0, e_column = 0, e_message = ''Unmatched '' @ what, e_severity = ''error'',
      e_code = None, e_suggestion = Some (''Check for missing closing '' @ closing)\<rparr>"

definition performBasicValidation :: "string \<Rightarrow> string \<Rightarrow> ValidationResult" where
  "performBasicValidation code fileName =
     (let lines = split code nl;
          (b, warns) = basicLines 0 lines \<lparr>braces = 0, squares = 0, parens = 0\<rparr> [];
          errs = (if braces b \<noteq> 0 then [unmatched ''braces'' ''}''] else [])
               @ (if squares b \<noteq> 0 then [unmatched ''brackets'' '']''] else [])
               @ (if parens b \<noteq> 0 then [unmatched ''parentheses'' '')''] else []);
          score = calculateScore errs warns
      in \<lparr>isValid = (length errs = 0), errors = errs, warnings = warns,
          suggestions = [], score = score\<rparr>)"

subsection \<open>TypeScript and JavaScript\<close>

fun semanticLines :: "int \<Rightarrow> string list \<Rightarrow> CodeWarning list \<Rightarrow> CodeWarning list" where
  "semanticLines i [] warns = warns"
| "semanticLines i (line # ls) warns =
     (let warns = (if includesStr line ''console.log'' \<and> \<not> startsWith (trim line) ''//''
                   then warns @ [\<lparr>w_line = i + 1,
                       w_message = ''console.log found - consider removing for production'',
                       w_type = ''code-quality''\<rparr>]
                   else warns);
          warns = (if includesStr line ''TODO'' \<or> includesStr line ''FIXME''
                   then warns @ [\<lparr>w_line = i + 1, w_message = ''TODO/FIXME comment found'',
                                  w_type = ''todo''\<rparr>]
                   else warns);
          warns = (if includesStr line ''debugger'' \<and> \<not> startsWith (trim line) ''//''
                   then warns @ [\<lparr>w_line = i + 1, w_message = ''debugger statement found'',
                                  w_type = ''code-quality''\<rparr>]
                   else warns)
      in semanticLines (i + 1) ls warns)"

definition performSemanticChecks :: "string \<Rightarrow> CodeWarning list" where
  "performSemanticChecks code = semanticLines 0 (split code nl) []"

definition generateSuggestions :: "string \<Rightarrow> string list" where
  "generateSuggestions code =
     (if includesStr code ''.then('' \<and> includesStr code ''.catch(''
      then [''Consider using async/await instead of .then()/.catch()''] else [])
   @ (if includesStr code ''var ''
      then [''Consider using '' @ quoted ''const'' @ '' or '' @ quoted ''let''
            @ '' instead of '' @ quoted ''var''] else [])
   @ (if includesStr code ''await '' \<and> \<not> includesStr code ''try''
      then [''Consider adding try/catch for async operations''] else [])"

definition diagnosticErrors :: "Diagnostic list \<Rightarrow> CodeError list" where
  "diagnosticErrors ds =
     concat (map (\<lambda>d. case d_position d of
                         None \<Rightarrow> []
                       | Some (line, character) \<Rightarrow>
                           [\<lparr>e_line = line + 1, e_column = character + 1,
                             e_message = d_messageText d, e_severity = ''error'',
                             e_code = Some (''TS'' @ d_code d), e_suggestion = None\<rparr>]) ds)"

definition validateTypeScript :: "library \<Rightarrow> string \<Rightarrow> string \<Rightarrow> ValidationResult" where
  "validateTypeScript lib code fileName =
     (let isTypeScript = endsWith fileName ''.ts'' \<or> endsWith fileName ''.tsx'';
          scriptKind = (if endsWith fileName ''.tsx'' \<or> endsWith fileName ''.jsx'' then TSX
                        else if isTypeScript then TS else JS)
      in case parseDiagnostics lib fileName code scriptKind of
           Threw e \<Rightarrow> performBasicValidation code fileName
         | Returned syntaxDiagnostics \<Rightarrow>
             (let errs = diagnosticErrors syntaxDiagnostics;
                  warns = performSemanticChecks code;
                  suggs = (if length errs = 0 then generateSuggestions code else []);
                  score = calculateScore errs warns
              in \<lparr>isValid = (length errs = 0), errors = errs, warnings = warns,
                  suggestions = suggs, score = score\<rparr>))"

subsection \<open>Python\<close>

text \<open>\<^verbatim>\<open>/^(if|elif|else|for|while|def|class|try|except|finally|with)\s/\<close>\<close>

definition blockKeywordRx :: regex where
  "blockKeywordRx =
     Seq Bol (Seq (Group 1
       (Alt (Lit ''if'') (Alt (Lit ''elif'') (Alt (Lit ''else'') (Alt (Lit ''for'')
       (Alt (Lit ''while'') (Alt (Lit ''def'') (Alt (Lit ''class'') (Alt (Lit ''try'')
       (Alt (Lit ''except'') (Alt (Lit ''finally'') (Lit ''with''))))))))))))
       (Class (OneOf [ClsSpace])))"

fun pythonLines ::
  "int \<Rightarrow> string list \<Rightarrow> CodeError list \<Rightarrow> CodeWarning list
   \<Rightarrow> CodeError list \<times> CodeWarning list"
where
  "pythonLines lineNumber [] errs warns = (errs, warns)"
| "pythonLines lineNumber (line # ls) errs warns =
     (let lineNumber = lineNumber + 1;
          trimmed = trim line
      in if trimmed = [] \<or> startsWith trimmed ''#'' then pythonLines lineNumber ls errs warns
         else
           (let errs =
                  (if includesStr trimmed ''='' \<and> \<not> includesStr trimmed ''==''
                   then (let beforeEquals = (case split trimmed (CHR ''='') of
                                               [] \<Rightarrow> []
                                             | part # _ \<Rightarrow> trim part)
                         in if startsWith beforeEquals ''if ''
                               \<or> startsWith beforeEquals ''while ''
                               \<or> startsWith beforeEquals ''elif ''
                            then errs @ [\<lparr>e_line = lineNumber,
                                   e_column = indexOf line (CHR ''='') + 1,
                                   e_message = ''Use '' @ quoted ''=='' @ '' for comparison, not ''
                                     @ quoted ''='',
                                   e_severity = ''error'', e_code = None,
                                   e_suggestion = Some (''Replace '' @ quoted ''='' @ '' with ''
                                     @ quoted ''=='')\<rparr>]
                            else errs)
                   else errs);
                errs =
                  (if rx_test noFlags blockKeywordRx trimmed \<and> \<not> endsWith trimmed '':''
                   then errs @ [\<lparr>e_line = lineNumber, e_column = int (length line),
                          e_message = ''Missing colon '' @ quoted '':'' @ '' at end of statement'',
                          e_severity = ''error'', e_code = None,
                          e_suggestion = Some (''Add '' @ quoted '':'' @ '' at the end'')\<rparr>]
                   else errs);
                openParens = count_list line (CHR ''('');
                closeParens = count_list line (CHR '')'');
                warns =
                  (if openParens \<noteq> closeParens
                   then warns @ [\<lparr>w_line = lineNumber, w_message = ''Unmatched parentheses'',
                                  w_type = ''syntax''\<rparr>]
                   else warns)
            in pythonLines lineNumber ls errs warns))"

definition validatePython :: "string \<Rightarrow> string \<Rightarrow> ValidationResult" where
  "validatePython code fileName =
     (let lines = split code nl;
          (errs, warns) = pythonLines 0 lines [] [];
          score = calculateScore errs warns
      in \<lparr>isValid = (length errs = 0), errors = errs, warnings = warns,
          suggestions = [], score = score\<rparr>)"

subsection \<open>Dispatch on the file extension\<close>

definition validateCode :: "library \<Rightarrow> string \<Rightarrow> string \<Rightarrow> ValidationResult" where
  "validateCode lib code fileName =
     (let ext = toLowerCase (extname lib fileName)
      in if ext \<in> set [''.ts'', ''.tsx'', ''.js'', ''.jsx'', ''.mjs'', ''.cjs'']
         then validateTypeScript lib code fileName
         else if ext = ''.py'' then validatePython code fileName
         else performBasicValidation code fileName)"

section \<open>Autonomous actions (autonomousActions.ts)\<close>

record ActionConfig =
  allowPackageInstall :: bool
  allowFileCreation :: bool
  allowFolderCreation :: bool
  allowFileModification :: bool
  allowScriptExecution :: bool
  allowGitOperations :: bool
  allowFormatting :: bool
  requireConfirmation :: bool

datatype ActionType =
    install_package
  | create_file
  | create_folder
  | modify_file
  | run_script
  | git_operation
  | format_code
  | update_imports

text \<open>
  \<^verbatim>\<open>params\<close> has type \<^verbatim>\<open>any\<close> in the source. The parser builds the first four
  shapes; \<open>OtherParams\<close> stands for any other payload.
\<close>

datatype ActionParams =
    InstallParams (packages: "string list") (dev: bool)
  | CreateFileParams (filePath: string) (content: string)
  | CreateFolderParams (folderPath: string)
  | RunScriptParams (script: string) (args: string)
  | OtherParams string

record ActionRequest =
  a_type :: ActionType
  description :: string
  params :: ActionParams
  workspacePath :: string

text \<open>The fields of \<^verbatim>\<open>ActionResult\<close> carry the prefix \<open>r_\<close>.\<close>

record ActionResult =
  r_success :: bool
  r_message :: string
  r_output :: "string option"
  r_error :: "string option"
  r_changes :: "string list option"

subsection \<open>Configuration\<close>

text \<open>
  The settings of the editor are a partial map from option names to values;
  \<^verbatim>\<open>config.get(name, default)\<close> answers the default for an option that is not set.
\<close>

definition config_get :: "(string \<rightharpoonup> bool) \<Rightarrow> string \<Rightarrow> bool \<Rightarrow> bool" where
  "config_get settings name dflt = (case settings name of None \<Rightarrow> dflt | Some v \<Rightarrow> v)"

definition getActionConfig :: "(string \<rightharpoonup> bool) \<Rightarrow> ActionConfig" where
  "getActionConfig settings =
     \<lparr>allowPackageInstall = config_get settings ''allowPackageInstall'' True,
      allowFileCreation = config_get settings ''allowFileCreation'' True,
      allowFolderCreation = config_get settings ''allowFolderCreation'' True,
      allowFileModification = config_get settings ''allowFileModification'' True,
      allowScriptExecution = config_get settings ''allowScriptExecution'' False,
      allowGitOperations = config_get settings ''allowGitOperations'' False,
      allowFormatting = config_get settings ''allowFormatting'' True,
      requireConfirmation = config_get settings ''requireConfirmation'' False\<rparr>"

subsection \<open>The executor\<close>

text \<open>
  The executor acts on the project: it asks the user, spawns processes and writes files.
  The state of everything outside the program is a value of type \<open>'w\<close>, threaded through
  the calls. \<open>confirm\<close> is the answer to \<^verbatim>\<open>requestConfirmation\<close> (\<open>True\<close> for "Yes");
  \<open>perform\<close> is the \<^verbatim>\<open>switch\<close> of \<^verbatim>\<open>execute\<close> over the private methods
  \<^verbatim>\<open>installPackage\<close>, \<^verbatim>\<open>createFile\<close>, ...: each returns an \<^verbatim>\<open>ActionResult\<close>
  (its own \<^verbatim>\<open>catch\<close> turns a failure into \<open>r_success = False\<close>) or throws.
\<close>

record 'w effects =
  confirm :: "ActionRequest \<Rightarrow> 'w \<Rightarrow> bool \<times> 'w"
  perform :: "ActionRequest \<Rightarrow> 'w \<Rightarrow> ActionResult outcome \<times> 'w"

record AutonomousActionExecutor =
  config :: ActionConfig
  executedActions :: "ActionRequest list"
  executorPath :: string

definition newExecutor :: "string \<Rightarrow> ActionConfig \<Rightarrow> AutonomousActionExecutor" where
  "newExecutor path cfg = \<lparr>config = cfg, executedActions = [], executorPath = path\<rparr>"

fun isActionAllowed :: "ActionConfig \<Rightarrow> ActionType \<Rightarrow> bool" where
  "isActionAllowed cfg install_package = allowPackageInstall cfg"
| "isActionAllowed cfg create_file = allowFileCreation cfg"
| "isActionAllowed cfg create_folder = allowFolderCreation cfg"
| "isActionAllowed cfg modify_file = allowFileModification cfg"
| "isActionAllowed cfg run_script = allowScriptExecution cfg"
| "isActionAllowed cfg git_operation = allowGitOperations cfg"
| "isActionAllowed cfg format_code = allowFormatting cfg"
| "isActionAllowed cfg update_imports = allowFileModification cfg"

fun typeName :: "ActionType \<Rightarrow> string" where
  "typeName install_package = ''install_package''"
| "typeName create_file = ''create_file''"
| "typeName create_folder = ''create_folder''"
| "typeName modify_file = ''modify_file''"
| "typeName run_script = ''run_script''"
| "typeName git_operation = ''git_operation''"
| "typeName format_code = ''format_code''"
| "typeName update_imports = ''update_imports''"

definition deniedResult :: "ActionType \<Rightarrow> ActionResult" where
  "deniedResult t =
     \<lparr>r_success = False,
      r_message = ''Action '' @ typeName t @ '' is disabled in settings'',
      r_output = None, r_error = Some ''Action not allowed'', r_changes = None\<rparr>"

definition cancelledResult :: ActionResult where
  "cancelledResult =
     \<lparr>r_success = False, r_message = ''Action cancelled by user'',
      r_output = None, r_error = None, r_changes = None\<rparr>"

definition failedResult :: "string \<Rightarrow> ActionResult" where
  "failedResult e =
     \<lparr>r_success = False, r_message = ''Action execution failed'',
      r_output = None, r_error = Some e, r_changes = None\<rparr>"

definition runAction ::
  "'w effects \<Rightarrow> AutonomousActionExecutor \<Rightarrow> ActionRequest \<Rightarrow> 'w
   \<Rightarrow> ActionResult \<times> AutonomousActionExecutor \<times> 'w"
where
  "runAction fx ex action w =
     (case perform fx action w of
        (Returned result, w') \<Rightarrow>
          (result,
           if r_success result then ex\<lparr>executedActions := executedActions ex @ [action]\<rparr>
           else ex,
           w')
      | (Threw e, w') \<Rightarrow> (failedResult e, ex, w'))"

definition execute ::
  "'w effects \<Rightarrow> AutonomousActionExecutor \<Rightarrow> ActionRequest \<Rightarrow> 'w
   \<Rightarrow> ActionResult \<times> AutonomousActionExecutor \<times> 'w"
where
  "execute fx ex action w =
     (if \<not> isActionAllowed (config ex) (a_type action) then
        (deniedResult (a_type action), ex, w)
      else if requireConfirmation (config ex) then
        (case confirm fx action w of
           (confirmed, w') \<Rightarrow>
             if \<not> confirmed then (cancelledResult, ex, w')
             else runAction fx ex action w')
      else runAction fx ex action w)"

subsection \<open>The parser\<close>

text \<open>
  The four patterns of \<^verbatim>\<open>actionPatterns\<close>, in their order:
  \<^verbatim>\<open>/<action:install_package\s+packages="([^"]+)"(?:\s+dev="(true|false)")?\s*\/>/g\<close>,
  \<^verbatim>\<open>/<action:create_file\s+path="([^"]+)"\s*\/>/g\<close>,
  \<^verbatim>\<open>/<action:create_folder\s+path="([^"]+)"\s*\/>/g\<close> and
  \<^verbatim>\<open>/<action:run_script\s+script="([^"]+)"(?:\s+args="([^"]*)")?\s*\/>/g\<close>.
\<close>

definition spaces1 :: regex where
  "spaces1 = Plus (OneOf [ClsSpace]) True"

definition spaces0 :: regex where
  "spaces0 = Star (OneOf [ClsSpace]) True"

definition notQuote :: cclass where
  "notQuote = NoneOf [Ch (CHR 0x22)]"

definition dq :: string where
  "dq = [CHR 0x22]"

definition installPackageRx :: regex where
  "installPackageRx =
     Seq (Lit ''<action:install_package'') (Seq spaces1
    (Seq (Lit (''packages='' @ dq)) (Seq (Group 1 (Plus notQuote True)) (Seq (Lit dq)
    (Seq (Opt (Seq spaces1 (Seq (Lit (''dev='' @ dq))
                 (Seq (Group 2 (Alt (Lit ''true'') (Lit ''false''))) (Lit dq)))))
    (Seq spaces0 (Lit ''/>'')))))))"

definition createFileRx :: regex where
  "createFileRx =
     Seq (Lit ''<action:create_file'') (Seq spaces1
    (Seq (Lit (''path='' @ dq)) (Seq (Group 1 (Plus notQuote True)) (Seq (Lit dq)
    (Seq spaces0 (Lit ''/>''))))))"

definition createFolderRx :: regex where
  "createFolderRx =
     Seq (Lit ''<action:create_folder'') (Seq spaces1
    (Seq (Lit (''path='' @ dq)) (Seq (Group 1 (Plus notQuote True)) (Seq (Lit dq)
    (Seq spaces0 (Lit ''/>''))))))"

definition runScriptRx :: regex where
  "runScriptRx =
     Seq (Lit ''<action:run_script'') (Seq spaces1
    (Seq (Lit (''script='' @ dq)) (Seq (Group 1 (Plus notQuote True)) (Seq (Lit dq)
    (Seq (Opt (Seq spaces1 (Seq (Lit (''args='' @ dq))
                 (Seq (Group 2 (Star notQuote True)) (Lit dq)))))
    (Seq spaces0 (Lit ''/>'')))))))"

text \<open>
  \<open>capture m n\<close> is \<^verbatim>\<open>match[n]\<close> for a group that took part in the match; group 1
  takes part in every match of the four patterns.
\<close>

definition capture :: "rx_match \<Rightarrow> nat \<Rightarrow> string" where
  "capture m n = (case group m n of None \<Rightarrow> [] | Some g \<Rightarrow> g)"

definition installPackageHandler :: "rx_match \<Rightarrow> ActionRequest" where
  "installPackageHandler m =
     \<lparr>a_type = install_package,
      description = ''Install packages: '' @ capture m 1,
      params = InstallParams (map trim (split (capture m 1) (CHR '','')))
                 (group m 2 = Some ''true''),
      workspacePath = []\<rparr>"

definition createFileHandler :: "rx_match \<Rightarrow> ActionRequest" where
  "createFileHandler m =
     \<lparr>a_type = create_file,
      description = ''Create file: '' @ capture m 1,
      params = CreateFileParams (capture m 1) [],
      workspacePath = []\<rparr>"

definition createFolderHandler :: "rx_match \<Rightarrow> ActionRequest" where
  "createFolderHandler m =
     \<lparr>a_type = create_folder,
      description = ''Create folder: '' @ capture m 1,
      params = CreateFolderParams (capture m 1),
      workspacePath = []\<rparr>"

definition runScriptHandler :: "rx_match \<Rightarrow> ActionRequest" where
  "runScriptHandler m =
     \<lparr>a_type = run_script,
      description = ''Run script: '' @ capture m 1,
      params = RunScriptParams (capture m 1) (capture m 2),
      workspacePath = []\<rparr>"

definition actionPatterns :: "(regex \<times> (rx_match \<Rightarrow> ActionRequest)) list" where
  "actionPatterns =
     [(installPackageRx, installPackageHandler),
      (createFileRx, createFileHandler),
      (createFolderRx, createFolderHandler),
      (runScriptRx, runScriptHandler)]"

text \<open>
  The outer loop \<^verbatim>\<open>for (const { regex, handler } of actionPatterns)\<close>: all the matches
  of one pattern are pushed before the next pattern is tried. \<open>None\<close> is the run that
  does not return.
\<close>

fun parsePatterns ::
  "(regex \<times> (rx_match \<Rightarrow> ActionRequest)) list \<Rightarrow> string \<Rightarrow> ActionRequest list
   \<Rightarrow> ActionRequest list option"
where
  "parsePatterns [] aiResponse actions = Some actions"
| "parsePatterns ((regex, handler) # pats) aiResponse actions =
     (case rx_exec_all noFlags regex None aiResponse 0 of
        None \<Rightarrow> None
      | Some ms \<Rightarrow> parsePatterns pats aiResponse (actions @ map handler ms))"

definition parseActions :: "string \<Rightarrow> ActionRequest list option" where
  "parseActions aiResponse = parsePatterns actionPatterns aiResponse []"

section \<open>Project context cache (smartAgent.ts)\<close>

record ProjectCache =
  projectStructure :: string
  commonPatterns :: string
  dependencies :: string
  timestamp :: int

definition CACHE_DURATION :: int where
  "CACHE_DURATION = 5 * 60 * 1000"

text \<open>
  What the agent needs from outside the program, over the outside state \<open>'w\<close>:
  \<open>now\<close> is \<^verbatim>\<open>Date.now()\<close> in milliseconds; the three builders read the project
  directory; \<open>callAI\<close> is the request to the language model, whose answer is the content
  of the first choice (\<open>None\<close> for \<^verbatim>\<open>null\<close>) or an exception; \<open>settings\<close> are the
  editor settings; \<open>actionEffects\<close> and \<open>lib\<close> are as above. The prompts sent to the
  model are not modelled: the model may answer any text to any prompt.
\<close>

record 'w system =
  now :: "'w \<Rightarrow> int \<times> 'w"
  buildProjectStructure :: "string \<Rightarrow> 'w \<Rightarrow> string outcome \<times> 'w"
  detectCommonPatterns :: "string \<Rightarrow> 'w \<Rightarrow> string outcome \<times> 'w"
  getDependencies :: "string \<Rightarrow> 'w \<Rightarrow> string outcome \<times> 'w"
  callAI :: "'w \<Rightarrow> string option outcome \<times> 'w"
  settings :: "string \<rightharpoonup> bool"
  actionEffects :: "'w effects"
  lib :: library

text \<open>
  The global \<^verbatim>\<open>projectCaches\<close> is a map from workspace paths to entries. The result of
  \<open>getProjectCache\<close> is the returned entry (\<open>None\<close> for \<^verbatim>\<open>null\<close>), the lines written
  to the console, the map and the outside state after the call.
\<close>

type_synonym caches = "string \<rightharpoonup> ProjectCache"

definition buildingMsg :: string where
  "buildingMsg = ''Building project cache...''"

definition cachedMsg :: string where
  "cachedMsg = ''Using cached project context''"

definition failedMsg :: string where
  "failedMsg = ''Failed to build cache:''"

definition buildProjectCache ::
  "'w system \<Rightarrow> caches \<Rightarrow> string \<Rightarrow> 'w \<Rightarrow> ProjectCache option \<times> string list \<times> caches \<times> 'w"
where
  "buildProjectCache sys cs workspace w =
     (case buildProjectStructure sys workspace w of
        (Threw e, w1) \<Rightarrow> (None, [buildingMsg, failedMsg], cs, w1)
      | (Returned structure, w1) \<Rightarrow>
     (case detectCommonPatterns sys workspace w1 of
        (Threw e, w2) \<Rightarrow> (None, [buildingMsg, failedMsg], cs, w2)
      | (Returned patterns, w2) \<Rightarrow>
     (case getDependencies sys workspace w2 of
        (Threw e, w3) \<Rightarrow> (None, [buildingMsg, failedMsg], cs, w3)
      | (Returned deps, w3) \<Rightarrow>
     (case now sys w3 of
        (t, w4) \<Rightarrow>
          (let cache = \<lparr>projectStructure = structure, commonPatterns = patterns,
                        dependencies = deps, timestamp = t\<rparr>
           in (Some cache, [buildingMsg], cs(workspace \<mapsto> cache), w4))))))"

definition getProjectCache ::
  "'w system \<Rightarrow> caches \<Rightarrow> string \<Rightarrow> 'w \<Rightarrow> ProjectCache option \<times> string list \<times> caches \<times> 'w"
where
  "getProjectCache sys cs workspace w =
     (case cs workspace of
        None \<Rightarrow> buildProjectCache sys cs workspace w
      | Some cached \<Rightarrow>
          (case now sys w of
             (t, w1) \<Rightarrow>
               if t - timestamp cached < CACHE_DURATION
               then (Some cached, [cachedMsg], cs, w1)
               else buildProjectCache sys cs workspace w1))"

definition clearProjectCache :: "caches \<Rightarrow> string \<Rightarrow> caches" where
  "clearProjectCache cs workspace = cs(workspace := None)"

definition clearAllCaches :: "caches \<Rightarrow> caches" where
  "clearAllCaches cs = Map.empty"

section \<open>Cleaning the answer of the model (smartAgent.ts)\<close>

definition wordClass :: cclass where
  "wordClass = OneOf [ClsWord]"

definition anyClass :: cclass where
  "anyClass = OneOf [ClsSpace, ClsNotSpace]"

definition spaceOrColon :: cclass where
  "spaceOrColon = OneOf [ClsSpace, Ch (CHR '':'')]"

definition fence :: string where
  "fence = [CHR 0x60, CHR 0x60, CHR 0x60]"

text \<open>\<^verbatim>\<open>/^```[\w]*\n([\s\S]*?)\n```$/\<close>\<close>

definition codeBlockPattern :: regex where
  "codeBlockPattern =
     Seq Bol (Seq (Lit fence) (Seq (Star wordClass True) (Seq (Lit [nl])
    (Seq (Group 1 (Star anyClass False)) (Seq (Lit (nl # fence)) Eol)))))"

text \<open>
  \<^verbatim>\<open>/^Here'?s?\s+(?:the\s+)?(?:fixed|improved|refactored|updated)\s+code[\s:]+/im\<close>,
  \<^verbatim>\<open>/^Here\s+is\s+(?:the\s+)?(?:fixed|improved)\s+code[\s:]+/im\<close> and
  \<^verbatim>\<open>/^(?:Fixed|Improved|Refactored)\s+code[\s:]+/im\<close>
\<close>

definition explanationPatterns :: "regex list" where
  "explanationPatterns =
     [Seq Bol (Seq (Lit ''Here'') (Seq (Opt (Lit [CHR 0x27])) (Seq (Opt (Lit ''s''))
        (Seq spaces1 (Seq (Opt (Seq (Lit ''the'') spaces1))
        (Seq (Alt (Lit ''fixed'') (Alt (Lit ''improved'')
                (Alt (Lit ''refactored'') (Lit ''updated''))))
        (Seq spaces1 (Seq (Lit ''code'') (Plus spaceOrColon True))))))))),
      Seq Bol (Seq (Lit ''Here'') (Seq spaces1 (Seq (Lit ''is'') (Seq spaces1
        (Seq (Opt (Seq (Lit ''the'') spaces1))
        (Seq (Alt (Lit ''fixed'') (Lit ''improved''))
        (Seq spaces1 (Seq (Lit ''code'') (Plus spaceOrColon True))))))))),
      Seq Bol (Seq (Alt (Lit ''Fixed'') (Alt (Lit ''Improved'') (Lit ''Refactored'')))
        (Seq spaces1 (Seq (Lit ''code'') (Plus spaceOrColon True))))]"

text \<open>\<^verbatim>\<open>/^```[\w]*\s*\n?/\<close> and \<^verbatim>\<open>/\n?```\s*$/\<close>\<close>

definition openingFence :: regex where
  "openingFence =
     Seq Bol (Seq (Lit fence) (Seq (Star wordClass True) (Seq spaces0 (Opt (Lit [nl])))))"

definition closingFence :: regex where
  "closingFence = Seq (Opt (Lit [nl])) (Seq (Lit fence) (Seq spaces0 Eol))"

definition cleanCodeResponse :: "string \<Rightarrow> string" where
  "cleanCodeResponse response =
     (let cleaned = trim response;
          cleaned = (case rx_match_first noFlags codeBlockPattern cleaned of
                       None \<Rightarrow> cleaned
                     | Some m \<Rightarrow> if capture m 1 \<noteq> [] then capture m 1 else cleaned);
          cleaned = fold (\<lambda>pattern cleaned. rx_remove_first flagsIM pattern cleaned)
                      explanationPatterns cleaned;
          cleaned = rx_remove_first noFlags openingFence cleaned;
          cleaned = rx_remove_first noFlags closingFence cleaned
      in trim cleaned)"

section \<open>The smart agent (smartAgent.ts)\<close>

text \<open>Numbers inside template strings: the decimal numeral of an integer.\<close>

function showNat :: "nat \<Rightarrow> string" where
  "showNat n =
     (if n < 10 then [char_of (48 + n)]
      else showNat (n div 10) @ [char_of (48 + n mod 10)])"
  by pat_completeness auto
termination
  by (relation "measure id") auto

declare showNat.simps [simp del]

definition showInt :: "int \<Rightarrow> string" where
  "showInt i = (if i < 0 then ''-'' @ showNat (nat (- i)) else showNat (nat i))"

definition getErrorSummary :: "ValidationResult \<Rightarrow> string" where
  "getErrorSummary result =
     (if isValid result then ''No errors found''
      else showNat (length (errors result)) @ '' error(s), ''
           @ showNat (length (warnings result)) @ '' warning(s)'')"

fun summaryLines :: "nat \<Rightarrow> ActionRequest list \<Rightarrow> string" where
  "summaryLines i [] = []"
| "summaryLines i (action # actions) =
     showNat (i + 1) @ ''. '' @ description action @ [nl] @ summaryLines (i + 1) actions"

definition getSummary :: "AutonomousActionExecutor \<Rightarrow> string" where
  "getSummary ex =
     (if length (executedActions ex) = 0 then ''No actions executed''
      else ''Executed '' @ showNat (length (executedActions ex)) @ '' action(s):'' @ [nl]
           @ summaryLines 0 (executedActions ex))"

text \<open>
  The optional fields of the configuration and of the result are options. The fields
  \<^verbatim>\<open>workspacePath\<close> and \<^verbatim>\<open>mode\<close> are written \<open>projectPath\<close> and \<open>usedMode\<close>
  here, their names being taken by the records above. The fields of the result that
  report the web search, the elapsed time and \<^verbatim>\<open>changesMade\<close> are left out, and
  so is the web search itself: it only adds text to the prompt.
\<close>

record SmartAgentConfig =
  apiKey :: string
  model :: string
  projectPath :: "string option"
  currentFile :: string
  selectedCode :: string
  fullFileContent :: string
  userPrompt :: string
  enableValidation :: "bool option"
  maxRetries :: "int option"
  enableWebSearch :: "bool option"

record SmartAgentResult =
  success :: bool
  code :: "string option"
  error :: "string option"
  usedMode :: "AgentMode option"
  cachedUsed :: "bool option"
  validated :: "bool option"
  validationScore :: "int option"
  retries :: "int option"
  validationErrors :: "string list option"
  actionsExecuted :: "ActionRequest list option"
  actionsSummary :: "string option"

text \<open>
  The loop \<^verbatim>\<open>for (const action of suggestedActions)\<close>. \<open>executed\<close> is the local
  \<^verbatim>\<open>executedActions\<close>, which receives the requests whose result is a success. The
  source reports every call of \<^verbatim>\<open>execute\<close> on the spot, a success through
  \<^verbatim>\<open>progressCallback\<close> and a failure through \<^verbatim>\<open>console.warn\<close>; \<open>trace\<close> is the
  list of these calls with their results.
\<close>

fun runActions ::
  "'w effects \<Rightarrow> AutonomousActionExecutor \<Rightarrow> string \<Rightarrow> ActionRequest list
   \<Rightarrow> ActionRequest list \<Rightarrow> (ActionRequest \<times> ActionResult) list \<Rightarrow> 'w
   \<Rightarrow> ActionRequest list \<times> (ActionRequest \<times> ActionResult) list
      \<times> AutonomousActionExecutor \<times> 'w"
where
  "runActions fx ex path [] executed trace w = (executed, trace, ex, w)"
| "runActions fx ex path (action # actions) executed trace w =
     (let action = action\<lparr>workspacePath := path\<rparr>
      in case execute fx ex action w of
           (result, ex', w') \<Rightarrow>
             if r_success result
             then runActions fx ex' path actions (executed @ [action])
                    (trace @ [(action, result)]) w'
             else runActions fx ex' path actions executed (trace @ [(action, result)]) w')"

text \<open>
  Step 4 of an attempt: parse the answer and run the requested actions, when there is a
  workspace. The result is the local \<^verbatim>\<open>executedActions\<close>, the trace, the executor
  (\<open>None\<close> for \<^verbatim>\<open>null\<close>) and the outside state; \<open>None\<close> is the run that does not
  return.
\<close>

definition executeActions ::
  "'w system \<Rightarrow> SmartAgentConfig \<Rightarrow> string \<Rightarrow> 'w
   \<Rightarrow> (ActionRequest list \<times> (ActionRequest \<times> ActionResult) list
       \<times> AutonomousActionExecutor option \<times> 'w) option"
where
  "executeActions sys cfg aiResponse w =
     (case projectPath cfg of
        None \<Rightarrow> Some ([], [], None, w)
      | Some path \<Rightarrow>
          if path = [] then Some ([], [], None, w)
          else (case parseActions aiResponse of
                  None \<Rightarrow> None
                | Some suggestedActions \<Rightarrow>
                    if length suggestedActions > 0 then
                      (case runActions (actionEffects sys)
                              (newExecutor path (getActionConfig (settings sys)))
                              path suggestedActions [] [] w of
                         (executed, trace, ex, w') \<Rightarrow> Some (executed, trace, Some ex, w'))
                    else Some ([], [], None, w)))"

text \<open>
  One pass through the body of the retry loop. \<open>Done\<close> is a \<^verbatim>\<open>return\<close>, \<open>Retry\<close> is
  \<^verbatim>\<open>retryCount++; continue\<close> after a failed validation, \<open>Failed\<close> is an exception
  that reaches \<^verbatim>\<open>catch (innerError)\<close>. The second component is the variable
  \<^verbatim>\<open>lastValidationResult\<close> after the pass, the third the trace of the actions.
\<close>

datatype attempt_result = Done SmartAgentResult | Retry | Failed string

definition attempt ::
  "'w system \<Rightarrow> SmartAgentConfig \<Rightarrow> TaskAnalysis \<Rightarrow> ProjectCache option \<Rightarrow> bool \<Rightarrow> int
   \<Rightarrow> int \<Rightarrow> ValidationResult option \<Rightarrow> 'w
   \<Rightarrow> (attempt_result \<times> ValidationResult option
       \<times> (ActionRequest \<times> ActionResult) list \<times> 'w) option"
where
  "attempt sys cfg analysis cache validationOn maxRetriesN retryCount lastValidationResult w =
     (case callAI sys w of
        (Threw e, w1) \<Rightarrow> Some (Failed e, lastValidationResult, [], w1)
      | (Returned None, w1) \<Rightarrow>
          Some (Failed ''Error: AI did not return code'', lastValidationResult, [], w1)
      | (Returned (Some answer), w1) \<Rightarrow>
          if answer = [] then
            Some (Failed ''Error: AI did not return code'', lastValidationResult, [], w1)
          else
            (let cleanedCode = cleanCodeResponse answer
             in case executeActions sys cfg answer w1 of
                  None \<Rightarrow> None
                | Some (executed, trace, actionExecutor, w2) \<Rightarrow>
                    if validationOn then
                      (let fileName = basename (lib sys) (currentFile cfg);
                           validationResult = validateCode (lib sys) cleanedCode fileName
                       in if isValid validationResult then
                            Some (Done \<lparr>success = True, code = Some cleanedCode,
                                    error = None, usedMode = Some (mode analysis),
                                    cachedUsed = Some (cache \<noteq> None),
                                    validated = Some True,
                                    validationScore = Some (score validationResult),
                                    retries = Some retryCount,
                                    validationErrors = None,
                                    actionsExecuted = Some executed,
                                    actionsSummary = map_option getSummary actionExecutor\<rparr>,
                                  Some validationResult, trace, w2)
                          else if retryCount < maxRetriesN then
                            Some (Retry, Some validationResult, trace, w2)
                          else
                            Some (Done \<lparr>success = False, code = Some cleanedCode,
                                    error = Some (''Code validation failed after ''
                                      @ showInt maxRetriesN @ '' retries: ''
                                      @ getErrorSummary validationResult),
                                    usedMode = Some (mode analysis),
                                    cachedUsed = Some (cache \<noteq> None),
                                    validated = Some False,
                                    validationScore = Some (score validationResult),
                                    retries = Some retryCount,
                                    validationErrors =
                                      Some (map e_message (errors validationResult)),
                                    actionsExecuted = Some executed,
                                    actionsSummary = map_option getSummary actionExecutor\<rparr>,
                                  Some validationResult, trace, w2))
                    else
                      Some (Done \<lparr>success = True, code = Some cleanedCode,
                              error = None, usedMode = Some (mode analysis),
                              cachedUsed = Some (cache \<noteq> None),
                              validated = Some False,
                              validationScore = None,
                              retries = Some 0,
                              validationErrors = None,
                              actionsExecuted = Some executed,
                              actionsSummary = map_option getSummary actionExecutor\<rparr>,
                            lastValidationResult, trace, w2)))"

text \<open>
  The state of a run when it ends: the variables \<^verbatim>\<open>retryCount\<close> and
  \<^verbatim>\<open>lastValidationResult\<close>, the number of calls of \<^verbatim>\<open>callAI\<close> (one for each pass
  through the loop), the traces of the actions of all passes, and the outside state.
\<close>

record 'w run_state =
  retryCount :: int
  lastValidationResult :: "ValidationResult option"
  aiCalls :: nat
  actionTrace :: "(ActionRequest \<times> ActionResult) list"
  world :: 'w

text \<open>
  \<^verbatim>\<open>while (retryCount <= maxRetries) { try { ... } catch (innerError) { ... } }\<close>
  followed by \<^verbatim>\<open>throw new Error("Unexpected error in retry loop")\<close>. The result is
  what the loop returns, or the exception that leaves it for the outer \<^verbatim>\<open>catch\<close>.
\<close>

function retryLoop ::
  "'w system \<Rightarrow> SmartAgentConfig \<Rightarrow> TaskAnalysis \<Rightarrow> ProjectCache option \<Rightarrow> bool \<Rightarrow> int
   \<Rightarrow> 'w run_state \<Rightarrow> (SmartAgentResult outcome \<times> 'w run_state) option"
where
  "retryLoop sys cfg analysis cache validationOn maxRetriesN st =
     (if retryCount st \<le> maxRetriesN then
        (case attempt sys cfg analysis cache validationOn maxRetriesN (retryCount st)
                (lastValidationResult st) (world st) of
           None \<Rightarrow> None
         | Some (r, lastResult, trace, w') \<Rightarrow>
             (let st' = st\<lparr>lastValidationResult := lastResult, aiCalls := aiCalls st + 1,
                            actionTrace := actionTrace st @ trace, world := w'\<rparr>
              in case r of
                   Done result \<Rightarrow> Some (Returned result, st')
                 | Retry \<Rightarrow>
                     retryLoop sys cfg analysis cache validationOn maxRetriesN
                       (st'\<lparr>retryCount := retryCount st + 1\<rparr>)
                 | Failed e \<Rightarrow>
                     if retryCount st < maxRetriesN then
                       retryLoop sys cfg analysis cache validationOn maxRetriesN
                         (st'\<lparr>retryCount := retryCount st + 1\<rparr>)
                     else Some (Threw e, st')))
      else Some (Threw ''Error: Unexpected error in retry loop'', st))"
  by pat_completeness auto
termination
  by (relation "measure (\<lambda>(sys, cfg, analysis, cache, validationOn, maxRetriesN, st).
                           nat (maxRetriesN + 1 - retryCount st))") auto

declare retryLoop.simps [simp del]

text \<open>
  \<open>executeSmartAgent\<close> takes the global cache map and the outside state and returns the
  result, the final state of the run and the cache map.
\<close>

definition executeSmartAgent ::
  "'w system \<Rightarrow> caches \<Rightarrow> SmartAgentConfig \<Rightarrow> 'w
   \<Rightarrow> (SmartAgentResult \<times> 'w run_state \<times> caches) option"
where
  "executeSmartAgent sys cs cfg w =
     (let validationOn = (enableValidation cfg \<noteq> Some False);
          maxRetriesN = (case maxRetries cfg of
                           None \<Rightarrow> 2
                         | Some n \<Rightarrow> if n = 0 then 2 else n);
          analysis = analyzeTaskComplexity (userPrompt cfg) (selectedCode cfg);
          (cache, cs', w1) =
            (case projectPath cfg of
               None \<Rightarrow> (None, cs, w)
             | Some path \<Rightarrow>
                 if needsContext analysis \<and> path \<noteq> [] \<and> mode analysis \<noteq> instant
                 then (case getProjectCache sys cs path w of
                         (cache, msgs, cs', w1) \<Rightarrow> (cache, cs', w1))
                 else (None, cs, w))
      in case retryLoop sys cfg analysis cache validationOn maxRetriesN
                \<lparr>retryCount = 0, lastValidationResult = None, aiCalls = 0,
                 actionTrace = [], world = w1\<rparr> of
           None \<Rightarrow> None
         | Some (Returned result, st) \<Rightarrow> Some (result, st, cs')
         | Some (Threw e, st) \<Rightarrow>
             Some (\<lparr>success = False, code = None,
                    error = Some (''Failed to process: '' @ e),
                    usedMode = None, cachedUsed = None, validated = None,
                    validationScore = None, retries = Some (retryCount st),
                    validationErrors = None, actionsExecuted = None,
                    actionsSummary = None\<rparr>, st, cs'))"

section \<open>Worked inputs\<close>

text \<open>
  Concrete collaborators for the runs evaluated below. \<open>plainLibrary\<close> has a parser
  that reports no diagnostic and takes the extension from the last dot;
  \<open>scriptedSystem answers opts\<close> has a clock that stands still, an empty project, a
  language model that gives \<open>answers n\<close> to its \<open>n\<close>-th request (the outside state
  counts the requests), the settings \<open>opts\<close>, a user who confirms and actions that
  succeed.
\<close>

definition plainLibrary :: library where
  "plainLibrary =
     \<lparr>parseDiagnostics = (\<lambda>fileName src kind. Returned []),
      extname = (\<lambda>name. if CHR ''.'' \<in> set name
                          then CHR ''.'' # rev (takeWhile (\<lambda>c. c \<noteq> CHR ''.'') (rev name))
                          else []),
      basename = (\<lambda>path. rev (takeWhile (\<lambda>c. c \<noteq> CHR ''/'') (rev path)))\<rparr>"

definition okResult :: ActionResult where
  "okResult = \<lparr>r_success = True, r_message = ''done'', r_output = None, r_error = None,
                r_changes = None\<rparr>"

definition scriptedSystem ::
  "(nat \<Rightarrow> string option outcome) \<Rightarrow> (string \<rightharpoonup> bool) \<Rightarrow> nat system"
where
  "scriptedSystem answers opts =
     \<lparr>now = (\<lambda>w. (0, w)),
      buildProjectStructure = (\<lambda>path w. (Returned [], w)),
      detectCommonPatterns = (\<lambda>path w. (Returned [], w)),
      getDependencies = (\<lambda>path w. (Returned [], w)),
      callAI = (\<lambda>w. (answers w, Suc w)),
      settings = opts,
      actionEffects = \<lparr>confirm = (\<lambda>a w. (True, w)),
                       perform = (\<lambda>a w. (Returned okResult, w))\<rparr>,
      lib = plainLibrary\<rparr>"

definition noCaches :: caches where
  "noCaches = Map.empty"

definition defaultSettings :: "string \<rightharpoonup> bool" where
  "defaultSettings = Map.empty"

definition noInstallSettings :: "string \<rightharpoonup> bool" where
  "noInstallSettings = [''allowPackageInstall'' \<mapsto> False]"

text \<open>A request on a text file of a project, with every option left to its default.\<close>

definition plainRequest :: SmartAgentConfig where
  "plainRequest =
     \<lparr>apiKey = ''key'', model = ''model'', projectPath = Some ''/proj'',
      currentFile = ''/proj/notes.txt'', selectedCode = ''const x = 0;'',
      fullFileContent = ''const x = 0;'', userPrompt = ''fix typo'',
      enableValidation = None, maxRetries = None, enableWebSearch = None\<rparr>"

definition zeroRetriesRequest :: SmartAgentConfig where
  "zeroRetriesRequest = plainRequest\<lparr>maxRetries := Some 0\<rparr>"

text \<open>A model that always answers sound code, and one that always answers \<^verbatim>\<open>f(x\<close>.\<close>

definition soundAnswers :: "nat \<Rightarrow> string option outcome" where
  "soundAnswers n = Returned (Some ''const x = 1;'')"

definition brokenAnswers :: "nat \<Rightarrow> string option outcome" where
  "brokenAnswers n = Returned (Some ''f(x'')"

text \<open>
  The answer of scenario D:
  \<^verbatim>\<open><action:install_package packages="left-pad" dev="false" />\<close>, a line break and
  \<^verbatim>\<open>const x = 1;\<close>.
\<close>

definition leftPadMarker :: string where
  "leftPadMarker =
     ''<action:install_package packages='' @ dq @ ''left-pad'' @ dq @ '' dev='' @ dq
     @ ''false'' @ dq @ '' />''"

definition scenarioD :: string where
  "scenarioD = leftPadMarker @ [nl] @ ''const x = 1;''"

definition scenarioDAnswers :: "nat \<Rightarrow> string option outcome" where
  "scenarioDAnswers n = Returned (Some scenarioD)"

text \<open>Projections of a run.\<close>

definition runResult ::
  "(SmartAgentResult \<times> 'w run_state \<times> caches) option \<Rightarrow> SmartAgentResult option" where
  "runResult run = map_option fst run"

definition runState ::
  "(SmartAgentResult \<times> 'w run_state \<times> caches) option \<Rightarrow> 'w run_state option" where
  "runState run = map_option (\<lambda>(result, st, cs). st) run"



text \<open>A batch of two requests: a script, which the default policy denies, and a folder.\<close>

definition mixedBatch :: "ActionRequest list" where
  "mixedBatch =
     [\<lparr>a_type = run_script, description = ''Run script: build'',
       params = RunScriptParams ''build'' [], workspacePath = []\<rparr>,
      \<lparr>a_type = create_folder, description = ''Create folder: src'',
       params = CreateFolderParams ''src'', workspacePath = []\<rparr>]"

text \<open>The errors of the results in the trace of a run, in order.\<close>

definition traceErrors :: "'w run_state \<Rightarrow> string option list" where
  "traceErrors st = map (\<lambda>(action, result). r_error result) (actionTrace st)"

text \<open>The characters that a match of the closing fence can hold.\<close>

definition fenceTail :: "char \<Rightarrow> bool" where
  "fenceTail c = (c = nl \<or> c = CHR 0x60 \<or> isSpace c)"

section \<open>Results about the task complexity analyzer\<close>

text \<open>
  C6. Whenever the lower-cased instruction contains one of the simple keywords, or the
  selected code has fewer than ten lines, \<open>analyzeTaskComplexity\<close> answers
  \<open>simple\<close> (the trivial tier) and asks for no project context. Neither the length of
  the instruction nor a keyword of the complex tier is looked at before that check.
\<close>

theorem analyzeTaskComplexity_simple_first:
  assumes "(\<exists>k \<in> set simpleKeywords. includesStr (toLowerCase instruction) k)
           \<or> length (split snippet nl) < 10"
  shows "complexity (analyzeTaskComplexity instruction snippet) = simple
         \<and> needsContext (analyzeTaskComplexity instruction snippet) = False"
  using assms by (auto simp: analyzeTaskComplexity_def Let_def list_ex_iff)

theorem analyzeTaskComplexity_simple_first_witness:
  "((\<exists>k \<in> set simpleKeywords. includesStr (toLowerCase ''Implement: Fix Typo'') k)
     \<or> length (split ''const name = 1;'' nl) < 10)
   \<and> complexity (analyzeTaskComplexity ''Implement: Fix Typo'' ''const name = 1;'') = simple
   \<and> needsContext (analyzeTaskComplexity ''Implement: Fix Typo'' ''const name = 1;'') = False"
proof -
  have h: "(\<exists>k \<in> set simpleKeywords. includesStr (toLowerCase ''Implement: Fix Typo'') k)
           \<or> length (split ''const name = 1;'' nl) < 10"
    by code_simp
  from analyzeTaskComplexity_simple_first [OF h] h show ?thesis by simp
qed

section \<open>Results about the code validator\<close>

lemma calculateScore_eq:
  "calculateScore es ws = max 0 (min 100 (100 - 10 * int (length es) - 2 * int (length ws)))"
  by (simp add: calculateScore_def Let_def mult.commute)

lemma performBasicValidation_scored:
  "score (performBasicValidation src fileName) =
     max 0 (min 100 (100 - 10 * int (length (errors (performBasicValidation src fileName)))
                         - 2 * int (length (warnings (performBasicValidation src fileName)))))
   \<and> isValid (performBasicValidation src fileName)
       = (errors (performBasicValidation src fileName) = [])"
  by (simp add: performBasicValidation_def calculateScore_eq Let_def split: prod.splits
           split del: if_split)

lemma validatePython_scored:
  "score (validatePython src fileName) =
     max 0 (min 100 (100 - 10 * int (length (errors (validatePython src fileName)))
                         - 2 * int (length (warnings (validatePython src fileName)))))
   \<and> isValid (validatePython src fileName) = (errors (validatePython src fileName) = [])"
  by (simp add: validatePython_def calculateScore_eq Let_def split: prod.splits
           split del: if_split)

lemma validateTypeScript_scored:
  "score (validateTypeScript l src fileName) =
     max 0 (min 100 (100 - 10 * int (length (errors (validateTypeScript l src fileName)))
                         - 2 * int (length (warnings (validateTypeScript l src fileName)))))
   \<and> isValid (validateTypeScript l src fileName)
       = (errors (validateTypeScript l src fileName) = [])"
proof (cases "parseDiagnostics l fileName src
         (if endsWith fileName ''.tsx'' \<or> endsWith fileName ''.jsx'' then TSX
          else if endsWith fileName ''.ts'' \<or> endsWith fileName ''.tsx'' then TS else JS)")
  case (Returned ds)
  then show ?thesis
    by (simp add: validateTypeScript_def calculateScore_eq Let_def split del: if_split)
next
  case (Threw e)
  then have "validateTypeScript l src fileName = performBasicValidation src fileName"
    by (simp add: validateTypeScript_def Let_def)
  then show ?thesis using performBasicValidation_scored by simp
qed

text \<open>
  C7. The verdict of \<open>validateCode\<close>, whichever validator the file extension selects and
  whatever the TypeScript parser reports, has a score of 100 minus 10 for each error minus
  2 for each warning, clamped to the range from 0 to 100, and is valid exactly when its
  list of errors is empty: warnings lower the score and never the validity.
\<close>

theorem validateCode_score_and_validity:
  "score (validateCode l src fileName) =
     max 0 (min 100 (100 - 10 * int (length (errors (validateCode l src fileName)))
                         - 2 * int (length (warnings (validateCode l src fileName)))))
   \<and> isValid (validateCode l src fileName) = (errors (validateCode l src fileName) = [])"
  using performBasicValidation_scored validatePython_scored validateTypeScript_scored
  by (simp add: validateCode_def Let_def)

text \<open>
  An unclosed parenthesis and a trailing blank in a text file: one error and one warning,
  so the score is 88 and the verdict is not valid.
\<close>

theorem validateCode_score_and_validity_witness:
  "score (validateCode plainLibrary ''f(x '' ''notes.txt'') = 88
   \<and> \<not> isValid (validateCode plainLibrary ''f(x '' ''notes.txt'')"
proof -
  have e: "length (errors (validateCode plainLibrary ''f(x '' ''notes.txt'')) = 1"
    by code_simp
  have w: "length (warnings (validateCode plainLibrary ''f(x '' ''notes.txt'')) = 1"
    by code_simp
  from e have "errors (validateCode plainLibrary ''f(x '' ''notes.txt'') \<noteq> []"
    by auto
  with validateCode_score_and_validity [of plainLibrary "''f(x ''" "''notes.txt''"] e w
  show ?thesis by simp
qed

section \<open>Results about the permission policy\<close>

text \<open>
  C9. With no setting made, \<open>getActionConfig\<close> allows package installation, file
  creation, folder creation, file modification and formatting, and forbids script
  execution and git operations; an executor with this configuration answers a
  \<open>run_script\<close> or \<open>git_operation\<close> request with the denial, without touching the
  project.
\<close>

theorem default_policy_denies_scripts_and_git:
  "getActionConfig Map.empty =
     \<lparr>allowPackageInstall = True, allowFileCreation = True, allowFolderCreation = True,
      allowFileModification = True, allowScriptExecution = False,
      allowGitOperations = False, allowFormatting = True, requireConfirmation = False\<rparr>
   \<and> (a_type action = run_script \<or> a_type action = git_operation \<longrightarrow>
        execute fx (newExecutor path (getActionConfig Map.empty)) action w
          = (deniedResult (a_type action), newExecutor path (getActionConfig Map.empty), w))"
  by (auto simp: getActionConfig_def config_get_def execute_def newExecutor_def)

theorem default_policy_denies_scripts_and_git_witness:
  "a_type (runScriptHandler \<lparr>index = 0, matched = [], groups = [(1, ''build'')], rest = []\<rparr>)
     = run_script
   \<and> r_error (fst (execute (actionEffects (scriptedSystem soundAnswers defaultSettings))
        (newExecutor ''/proj'' (getActionConfig Map.empty))
        (runScriptHandler \<lparr>index = 0, matched = [], groups = [(1, ''build'')], rest = []\<rparr>)
        (0::nat))) = Some ''Action not allowed''"
proof -
  have t: "a_type (runScriptHandler
             \<lparr>index = 0, matched = [], groups = [(1, ''build'')], rest = []\<rparr>) = run_script"
    by (simp add: runScriptHandler_def)
  from default_policy_denies_scripts_and_git
         [of "runScriptHandler \<lparr>index = 0, matched = [], groups = [(1, ''build'')], rest = []\<rparr>"
             "actionEffects (scriptedSystem soundAnswers defaultSettings)" "''/proj''" "0::nat"] t
  have "execute (actionEffects (scriptedSystem soundAnswers defaultSettings))
          (newExecutor ''/proj'' (getActionConfig Map.empty))
          (runScriptHandler \<lparr>index = 0, matched = [], groups = [(1, ''build'')], rest = []\<rparr>)
          (0::nat)
        = (deniedResult run_script, newExecutor ''/proj'' (getActionConfig Map.empty), 0)"
    by metis
  with t show ?thesis by (simp add: deniedResult_def)
qed

section \<open>Results about the project context cache\<close>







section \<open>Results about the retry loop\<close>

lemma attempt_success:
  assumes "attempt sys cfg analysis cache validationOn maxN rc lv w = Some (Done r, lv', tr, w')"
    and "success r"
  shows "\<not> validationOn \<or> (\<exists>v. lv' = Some v \<and> isValid v)"
  using assms
  by (auto simp: attempt_def Let_def
           split: prod.splits outcome.splits option.splits if_splits)

lemma retryLoop_success:
  "retryLoop sys cfg analysis cache validationOn maxN st = Some (Returned r, st') \<Longrightarrow>
   success r \<Longrightarrow>
   \<not> validationOn \<or> (\<exists>v. lastValidationResult st' = Some v \<and> isValid v)"
proof (induction sys cfg analysis cache validationOn maxN st rule: retryLoop.induct)
  case (1 sys cfg analysis cache validationOn maxN st)
  note run = "1.prems"(1) [unfolded retryLoop.simps [of sys cfg analysis cache validationOn maxN st]]
  from run have le: "retryCount st \<le> maxN"
    by (auto split: if_splits)
  with run obtain a lv tr w' where
    att: "attempt sys cfg analysis cache validationOn maxN (retryCount st)
            (lastValidationResult st) (world st) = Some (a, lv, tr, w')"
    by (auto split: option.splits)
  define st1 where "st1 = st\<lparr>lastValidationResult := lv, aiCalls := aiCalls st + 1,
                            actionTrace := actionTrace st @ tr, world := w'\<rparr>"
  show ?case
  proof (cases a)
    case (Done result)
    with run le att have "r = result" "st' = st1"
      by (simp_all add: st1_def Let_def)
    with attempt_success [OF att [unfolded Done]] "1.prems"(2) show ?thesis
      by (auto simp: st1_def)
  next
    case Retry
    with run le att
    have "retryLoop sys cfg analysis cache validationOn maxN
            (st1\<lparr>retryCount := retryCount st + 1\<rparr>) = Some (Returned r, st')"
      by (simp add: st1_def Let_def)
    from "1.IH"(1) [OF le att refl refl refl refl Retry this [unfolded st1_def] "1.prems"(2)]
    show ?thesis .
  next
    case (Failed e)
    with run le att
    have lt: "retryCount st < maxN"
      by (simp add: st1_def Let_def split: if_splits)
    with Failed run le att
    have "retryLoop sys cfg analysis cache validationOn maxN
            (st1\<lparr>retryCount := retryCount st + 1\<rparr>) = Some (Returned r, st')"
      by (simp add: st1_def Let_def)
    from "1.IH"(2) [OF le att refl refl refl refl Failed lt this [unfolded st1_def] "1.prems"(2)]
    show ?thesis .
  qed
qed

text \<open>
  C1. When a run of \<open>executeSmartAgent\<close> returns a result with \<open>success\<close> set, either
  validation was switched off in the configuration, or the variable
  \<open>lastValidationResult\<close> holds, at the end of the run, a verdict that is valid.
\<close>

theorem executeSmartAgent_success_means_valid:
  assumes "executeSmartAgent sys cs cfg w = Some (result, st, cs')"
    and "success result"
  shows "enableValidation cfg = Some False
         \<or> (\<exists>v. lastValidationResult st = Some v \<and> isValid v)"
proof -
  from assms(1) obtain analysis cache maxN st0 out where
    loop: "retryLoop sys cfg analysis cache (enableValidation cfg \<noteq> Some False) maxN st0
             = Some (out, st)"
    and res: "(case out of Returned r \<Rightarrow> r = result
               | Threw e \<Rightarrow> \<not> success result)"
    by (auto simp: executeSmartAgent_def Let_def
             split: prod.splits option.splits outcome.splits)
  show ?thesis
  proof (cases out)
    case (Returned r)
    with res loop assms(2) retryLoop_success
      [of sys cfg analysis cache "enableValidation cfg \<noteq> Some False" maxN st0 result st]
    show ?thesis by auto
  next
    case (Threw e)
    with res assms(2) show ?thesis by simp
  qed
qed

text \<open>A run on sound code with validation left on: it succeeds and its last verdict is valid.\<close>

theorem executeSmartAgent_success_means_valid_witness:
  "\<exists>result st cs'.
     executeSmartAgent (scriptedSystem soundAnswers defaultSettings) noCaches plainRequest 0
       = Some (result, st, cs')
     \<and> success result
     \<and> (\<exists>v. lastValidationResult st = Some v \<and> isValid v)"
proof -
  let ?run = "executeSmartAgent (scriptedSystem soundAnswers defaultSettings) noCaches
                plainRequest (0::nat)"
  have ok: "map_option success (runResult ?run) = Some True"
    by code_simp
  have on: "enableValidation plainRequest \<noteq> Some False"
    by (simp add: plainRequest_def)
  from ok obtain result st cs' where run: "?run = Some (result, st, cs')" and s: "success result"
    by (auto simp: runResult_def)
  from executeSmartAgent_success_means_valid [OF run s] on
  have "\<exists>v. lastValidationResult st = Some v \<and> isValid v" by simp
  with run s show ?thesis by blast
qed

lemma attempt_retries:
  assumes "attempt sys cfg analysis cache validationOn maxN rc lv w = Some (Done r, lv', tr, w')"
  shows "retries r = Some rc \<or> retries r = Some 0"
  using assms
  by (auto simp: attempt_def Let_def
           split: prod.splits outcome.splits option.splits if_splits)

lemma retryLoop_budget:
  "retryLoop sys cfg analysis cache validationOn maxN st = Some (out, st') \<Longrightarrow>
   retryCount st \<le> maxN \<Longrightarrow>
   retryCount st \<le> retryCount st' \<and> retryCount st' \<le> maxN
   \<and> int (aiCalls st') = int (aiCalls st) + (retryCount st' - retryCount st) + 1
   \<and> (case out of
         Returned r \<Rightarrow> retries r = Some (retryCount st') \<or> retries r = Some 0
       | Threw e \<Rightarrow> True)"
proof (induction sys cfg analysis cache validationOn maxN st rule: retryLoop.induct)
  case (1 sys cfg analysis cache validationOn maxN st)
  note run = "1.prems"(1) [unfolded retryLoop.simps [of sys cfg analysis cache validationOn maxN st]]
  note le = "1.prems"(2)
  from run le obtain a lv tr w' where
    att: "attempt sys cfg analysis cache validationOn maxN (retryCount st)
            (lastValidationResult st) (world st) = Some (a, lv, tr, w')"
    by (auto split: option.splits)
  define st1 where "st1 = st\<lparr>lastValidationResult := lv, aiCalls := aiCalls st + 1,
                            actionTrace := actionTrace st @ tr, world := w'\<rparr>"
  show ?case
  proof (cases a)
    case (Done result)
    with run le att have "out = Returned result" "st' = st1"
      by (simp_all add: st1_def Let_def)
    with attempt_retries [OF att [unfolded Done]] le show ?thesis
      by (auto simp: st1_def)
  next
    case Retry
    with att have lt: "retryCount st < maxN"
      by (auto simp: attempt_def Let_def
               split: prod.splits outcome.splits option.splits if_splits)
    from Retry run le att
    have "retryLoop sys cfg analysis cache validationOn maxN
            (st1\<lparr>retryCount := retryCount st + 1\<rparr>) = Some (out, st')"
      by (simp add: st1_def Let_def)
    from "1.IH"(1) [OF le att refl refl refl refl Retry this [unfolded st1_def]] lt
    show ?thesis by (auto split: outcome.splits)
  next
    case (Failed e)
    show ?thesis
    proof (cases "retryCount st < maxN")
      case True
      with Failed run le att
      have "retryLoop sys cfg analysis cache validationOn maxN
              (st1\<lparr>retryCount := retryCount st + 1\<rparr>) = Some (out, st')"
        by (simp add: st1_def Let_def)
      from "1.IH"(2) [OF le att refl refl refl refl Failed True this [unfolded st1_def]] True
      show ?thesis by (auto split: outcome.splits)
    next
      case False
      with Failed run le att have "out = Threw e" "st' = st1"
        by (simp_all add: st1_def Let_def)
      with le show ?thesis by (simp add: st1_def)
    qed
  qed
qed

text \<open>
  The retry budget for a configured \<open>maxRetries\<close> of at least 1: the reported
  \<open>retries\<close> lie between 0 and \<open>maxRetries\<close>, and the language model is called at
  most \<open>maxRetries + 1\<close> times.
\<close>

lemma executeSmartAgent_retry_budget:
  assumes "executeSmartAgent sys cs cfg w = Some (result, st, cs')"
    and "maxRetries cfg = Some n" and "1 \<le> n"
  shows "(\<exists>k. retries result = Some k \<and> 0 \<le> k \<and> k \<le> n) \<and> int (aiCalls st) \<le> n + 1"
proof -
  from assms obtain analysis cache validationOn w1 out where
    loop: "retryLoop sys cfg analysis cache validationOn n
             \<lparr>retryCount = 0, lastValidationResult = None, aiCalls = 0,
              actionTrace = [], world = w1\<rparr> = Some (out, st)"
    and res: "(case out of Returned r \<Rightarrow> result = r
               | Threw e \<Rightarrow> retries result = Some (retryCount st))"
    by (auto simp: executeSmartAgent_def Let_def
             split: prod.splits option.splits outcome.splits if_splits)
  from retryLoop_budget [OF loop] assms(3)
  have b: "0 \<le> retryCount st" "retryCount st \<le> n"
    "int (aiCalls st) = retryCount st + 1"
    "(case out of Returned r \<Rightarrow> retries r = Some (retryCount st) \<or> retries r = Some 0
      | Threw e \<Rightarrow> True)"
    by simp_all
  from b res assms(3) show ?thesis by (cases out) auto
qed

text \<open>
  C2. The configuration allows zero retries (the documentation of the setting reads
  "0 - No retries"), but \<^verbatim>\<open>config.maxRetries || 2\<close> turns a configured 0 into 2: with
  \<open>maxRetries = Some 0\<close> and a model that keeps answering code with an unclosed
  parenthesis, the result reports \<open>retries = 2\<close>.
\<close>

theorem zero_maxRetries_still_retries:
  "maxRetries zeroRetriesRequest = Some 0
   \<and> map_option retries
       (runResult (executeSmartAgent (scriptedSystem brokenAnswers defaultSettings) noCaches
          zeroRetriesRequest 0)) = Some (Some 2)"
  by code_simp

text \<open>
  C3. In the same run the language model is called three times, where a configured
  \<open>maxRetries\<close> of 0 promises a single call.
\<close>

theorem zero_maxRetries_three_model_calls:
  "maxRetries zeroRetriesRequest = Some 0
   \<and> map_option aiCalls
       (runState (executeSmartAgent (scriptedSystem brokenAnswers defaultSettings) noCaches
          zeroRetriesRequest 0)) = Some 3"
  by code_simp

section \<open>Results about the execution of actions\<close>

lemma runAction_config:
  "runAction fx ex a w = (r, ex', w') \<Longrightarrow> config ex' = config ex"
  by (auto simp: runAction_def split: prod.splits outcome.splits if_splits)

lemma execute_config:
  "execute fx ex a w = (r, ex', w') \<Longrightarrow> config ex' = config ex"
  by (auto simp: execute_def split: prod.splits if_splits dest: runAction_config)

lemma execute_denied:
  "\<not> isActionAllowed (config ex) (a_type a) \<Longrightarrow>
   execute fx ex a w = (deniedResult (a_type a), ex, w)"
  by (simp add: execute_def)

lemma runActions_trace:
  "runActions fx ex path batch executed0 trace0 w = (executed, trace, ex', w') \<Longrightarrow>
   \<exists>tr. trace = trace0 @ tr
      \<and> map fst tr = map (\<lambda>a. a\<lparr>workspacePath := path\<rparr>) batch
      \<and> executed = executed0 @ map fst (filter (\<lambda>(a, r). r_success r) tr)
      \<and> (\<forall>(a, r) \<in> set tr. \<not> isActionAllowed (config ex) (a_type a)
            \<longrightarrow> r = deniedResult (a_type a))
      \<and> config ex' = config ex"
proof (induction batch arbitrary: ex executed0 trace0 w)
  case Nil
  then show ?case by simp
next
  case (Cons action batch)
  define a where "a = action\<lparr>workspacePath := path\<rparr>"
  obtain r ex1 w1 where ex: "execute fx ex a w = (r, ex1, w1)"
    by (cases "execute fx ex a w") auto
  have cfg: "config ex1 = config ex" using ex by (rule execute_config)
  have den: "\<not> isActionAllowed (config ex) (a_type a) \<longrightarrow> r = deniedResult (a_type a)"
    using ex execute_denied [of ex a fx w] by auto
  show ?case
  proof (cases "r_success r")
    case True
    with Cons.prems ex
    have "runActions fx ex1 path batch (executed0 @ [a]) (trace0 @ [(a, r)]) w1
            = (executed, trace, ex', w')"
      by (simp add: a_def Let_def)
    from Cons.IH [OF this] obtain tr where
      "trace = (trace0 @ [(a, r)]) @ tr"
      "map fst tr = map (\<lambda>a. a\<lparr>workspacePath := path\<rparr>) batch"
      "executed = (executed0 @ [a]) @ map fst (filter (\<lambda>(a, r). r_success r) tr)"
      "\<forall>(a, r) \<in> set tr. \<not> isActionAllowed (config ex1) (a_type a)
            \<longrightarrow> r = deniedResult (a_type a)"
      "config ex' = config ex1"
      by blast
    with True cfg den show ?thesis
      by (intro exI [of _ "(a, r) # tr"]) (auto simp: a_def)
  next
    case False
    with Cons.prems ex
    have "runActions fx ex1 path batch executed0 (trace0 @ [(a, r)]) w1
            = (executed, trace, ex', w')"
      by (simp add: a_def Let_def)
    from Cons.IH [OF this] obtain tr where
      "trace = (trace0 @ [(a, r)]) @ tr"
      "map fst tr = map (\<lambda>a. a\<lparr>workspacePath := path\<rparr>) batch"
      "executed = executed0 @ map fst (filter (\<lambda>(a, r). r_success r) tr)"
      "\<forall>(a, r) \<in> set tr. \<not> isActionAllowed (config ex1) (a_type a)
            \<longrightarrow> r = deniedResult (a_type a)"
      "config ex' = config ex1"
      by blast
    with False cfg den show ?thesis
      by (intro exI [of _ "(a, r) # tr"]) (auto simp: a_def)
  qed
qed

text \<open>
  C5, as the code has it. \<open>execute\<close> is called for every request of the batch, in the
  order of the batch, whatever the earlier calls returned: neither a denial nor a failed
  execution ends the loop. A request whose type the policy forbids gets the result
  "Action not allowed"; that result is reported on the spot and is not kept: the list
  \<open>executed\<close>, which becomes \<open>actionsExecuted\<close>, holds the requests whose result was a
  success, in order, and never a denied one.
\<close>

theorem runActions_denial_does_not_abort:
  assumes "runActions fx ex path batch [] [] w = (executed, trace, ex', w')"
  shows "map fst trace = map (\<lambda>a. a\<lparr>workspacePath := path\<rparr>) batch
       \<and> executed = map fst (filter (\<lambda>(a, r). r_success r) trace)
       \<and> (\<forall>(a, r) \<in> set trace. \<not> isActionAllowed (config ex) (a_type a)
             \<longrightarrow> r = deniedResult (a_type a) \<and> a \<notin> set executed)"
proof -
  from runActions_trace [OF assms]
  have t: "map fst trace = map (\<lambda>a. a\<lparr>workspacePath := path\<rparr>) batch"
    and e: "executed = map fst (filter (\<lambda>(a, r). r_success r) trace)"
    and d: "\<forall>(a, r) \<in> set trace. \<not> isActionAllowed (config ex) (a_type a)
               \<longrightarrow> r = deniedResult (a_type a)"
    by auto
  have "a \<notin> set executed"
    if "(a, r) \<in> set trace" "\<not> isActionAllowed (config ex) (a_type a)" for a r
  proof
    assume "a \<in> set executed"
    with e obtain r' where "(a, r') \<in> set trace" "r_success r'" by auto
    with d that(2) have "r_success (deniedResult (a_type a))" by auto
    then show False by (simp add: deniedResult_def)
  qed
  with t e d show ?thesis by auto
qed

text \<open>
  The batch of a script and a folder under the default policy: both are tried, the
  script is denied and only the folder is recorded.
\<close>

theorem runActions_denial_does_not_abort_witness:
  "\<exists>executed trace ex' w'.
     runActions (actionEffects (scriptedSystem soundAnswers defaultSettings))
       (newExecutor ''/proj'' (getActionConfig defaultSettings)) ''/proj'' mixedBatch [] []
       (0::nat) = (executed, trace, ex', w')
   \<and> map fst trace = map (\<lambda>a. a\<lparr>workspacePath := ''/proj''\<rparr>) mixedBatch
   \<and> executed = map fst (filter (\<lambda>(a, r). r_success r) trace)
   \<and> map a_type executed = [create_folder]"
proof -
  let ?run = "runActions (actionEffects (scriptedSystem soundAnswers defaultSettings))
       (newExecutor ''/proj'' (getActionConfig defaultSettings)) ''/proj'' mixedBatch [] []
       (0::nat)"
  obtain executed trace ex' w' where run: "?run = (executed, trace, ex', w')"
    by (cases ?run) auto
  have "map a_type (fst ?run) = [create_folder]"
    by code_simp
  with run have k: "map a_type executed = [create_folder]" by simp
  from runActions_denial_does_not_abort [OF run]
  have t: "map fst trace = map (\<lambda>a. a\<lparr>workspacePath := ''/proj''\<rparr>) mixedBatch"
    and e: "executed = map fst (filter (\<lambda>(a, r). r_success r) trace)"
    by simp_all
  show ?thesis
  proof (intro exI conjI)
    show "?run = (executed, trace, ex', w')" by (rule run)
    show "map fst trace = map (\<lambda>a. a\<lparr>workspacePath := ''/proj''\<rparr>) mixedBatch" by (rule t)
    show "executed = map fst (filter (\<lambda>(a, r). r_success r) trace)" by (rule e)
    show "map a_type executed = [create_folder]" by (rule k)
  qed
qed

text \<open>
  C5, as the claim has it, fails: in the run of scenario D with package installation
  switched off, the install request is denied, and the list \<open>actionsExecuted\<close> of the
  result is empty: the denial is in no list of the result.
\<close>

theorem denied_request_not_recorded:
  "map_option traceErrors
     (runState (executeSmartAgent (scriptedSystem scenarioDAnswers noInstallSettings)
        noCaches plainRequest 0)) = Some [Some ''Action not allowed'']
   \<and> map_option actionsExecuted
       (runResult (executeSmartAgent (scriptedSystem scenarioDAnswers noInstallSettings)
          noCaches plainRequest 0)) = Some (Some [])"
  by code_simp

section \<open>Results about the parser\<close>

lemma rx_search_index:
  "rx_search f r p s i = Some m \<Longrightarrow> i \<le> index m"
proof (induction s arbitrary: p i)
  case Nil
  then show ?case by (auto split: option.splits)
next
  case (Cons x xs)
  show ?case
  proof (cases "rx_run f [r] p (x # xs) []")
    case None
    with Cons.prems have "rx_search f r (Some x) xs (Suc i) = Some m" by simp
    from Cons.IH [OF this] show ?thesis by simp
  next
    case (Some tc)
    with Cons.prems show ?thesis by (auto split: prod.splits)
  qed
qed


lemma literal_head_consumes:
  "rx_run f [Seq (Lit (c # cs)) q] p s [] = Some (t, caps) \<Longrightarrow> length t < length s"
proof (cases s)
  case Nil
  then show "rx_run f [Seq (Lit (c # cs)) q] p s [] = Some (t, caps) \<Longrightarrow> ?thesis" by simp
next
  case (Cons x xs)
  assume "rx_run f [Seq (Lit (c # cs)) q] p s [] = Some (t, caps)"
  with Cons have "rx_run f [Lit cs, q] (Some x) xs [] = Some (t, caps)"
    by (simp split: if_splits)
  then have "suffix t xs" by (rule rx_run_suffix)
  then have "length t \<le> length xs" by (rule suffix_length_le)
  with Cons show ?thesis by simp
qed

lemma rx_search_nonempty:
  assumes "\<forall>p s t caps. rx_run f [r] p s [] = Some (t, caps) \<longrightarrow> length t < length s"
  shows "rx_search f r p s i = Some m \<Longrightarrow> matched m \<noteq> []"
proof (induction s arbitrary: p i)
  case Nil
  show ?case
  proof (cases "rx_run f [r] p [] []")
    case None
    with Nil show ?thesis by simp
  next
    case (Some tc)
    obtain t caps where "tc = (t, caps)" by (cases tc)
    with assms Some have "length t < length ([] :: string)" by blast
    then show ?thesis by simp
  qed
next
  case (Cons x xs)
  show ?case
  proof (cases "rx_run f [r] p (x # xs) []")
    case None
    with Cons.prems have "rx_search f r (Some x) xs (Suc i) = Some m" by simp
    from Cons.IH [OF this] show ?thesis .
  next
    case (Some tc)
    obtain t caps where tc: "tc = (t, caps)" by (cases tc)
    from assms Some tc have "length t < length (x # xs)" by blast
    with Some tc Cons.prems show ?thesis by auto
  qed
qed

lemma rx_exec_all_total:
  assumes "\<forall>p s t caps. rx_run f [r] p s [] = Some (t, caps) \<longrightarrow> length t < length s"
  shows "\<exists>ms. rx_exec_all f r p s i = Some ms"
  using assms
proof (induction f r p s i rule: rx_exec_all.induct)
  case (1 f r p s i)
  show ?case
  proof (cases "rx_search f r p s i")
    case None
    then show ?thesis by (simp add: rx_exec_all.simps [of f r p s i])
  next
    case (Some m)
    from rx_search_nonempty [OF "1.prems" Some] have ne: "matched m \<noteq> []" .
    from "1.IH" [OF Some ne "1.prems"] obtain ms' where
      "rx_exec_all f r (Some (last (matched m))) (rest m) (index m + length (matched m))
         = Some ms'"
      by blast
    with Some ne show ?thesis by (simp add: rx_exec_all.simps [of f r p s i])
  qed
qed

lemma installPackageRx_consumes:
  "rx_run f [installPackageRx] p s [] = Some (t, caps) \<Longrightarrow> length t < length s"
  unfolding installPackageRx_def by (rule literal_head_consumes)

lemma installPackageRx_total:
  "\<exists>ms. rx_exec_all f installPackageRx p s i = Some ms"
  using installPackageRx_consumes by (intro rx_exec_all_total) blast

lemma createFileRx_consumes:
  "rx_run f [createFileRx] p s [] = Some (t, caps) \<Longrightarrow> length t < length s"
  unfolding createFileRx_def by (rule literal_head_consumes)

lemma createFileRx_total:
  "\<exists>ms. rx_exec_all f createFileRx p s i = Some ms"
  using createFileRx_consumes by (intro rx_exec_all_total) blast

lemma createFolderRx_consumes:
  "rx_run f [createFolderRx] p s [] = Some (t, caps) \<Longrightarrow> length t < length s"
  unfolding createFolderRx_def by (rule literal_head_consumes)

lemma createFolderRx_total:
  "\<exists>ms. rx_exec_all f createFolderRx p s i = Some ms"
  using createFolderRx_consumes by (intro rx_exec_all_total) blast

lemma runScriptRx_consumes:
  "rx_run f [runScriptRx] p s [] = Some (t, caps) \<Longrightarrow> length t < length s"
  unfolding runScriptRx_def by (rule literal_head_consumes)

lemma runScriptRx_total:
  "\<exists>ms. rx_exec_all f runScriptRx p s i = Some ms"
  using runScriptRx_consumes by (intro rx_exec_all_total) blast



section \<open>Every run returns\<close>

text \<open>
  The parser returns for every text, so every pass through the retry loop ends, and the
  loop runs at most once for each value of the retry counter: \<open>executeSmartAgent\<close>
  returns a result for every configuration and every behaviour of its collaborators.
\<close>

lemma parseActions_total:
  "\<exists>acts. parseActions answer = Some acts"
proof -
  obtain ms1 ms2 ms3 ms4 where
    "rx_exec_all noFlags installPackageRx None answer 0 = Some ms1"
    "rx_exec_all noFlags createFileRx None answer 0 = Some ms2"
    "rx_exec_all noFlags createFolderRx None answer 0 = Some ms3"
    "rx_exec_all noFlags runScriptRx None answer 0 = Some ms4"
    using installPackageRx_total createFileRx_total createFolderRx_total runScriptRx_total
    by metis
  then show ?thesis by (simp add: parseActions_def actionPatterns_def)
qed

lemma executeActions_total:
  "\<exists>r. executeActions sys cfg answer w = Some r"
  using parseActions_total [of answer]
  by (auto simp: executeActions_def split: option.splits prod.splits)

lemma attempt_total:
  "\<exists>r. attempt sys cfg analysis cache validationOn maxN rc lv w = Some r"
proof (cases "callAI sys w")
  case (Pair out w1)
  show ?thesis
  proof (cases out)
    case (Threw e)
    with Pair show ?thesis by (simp add: attempt_def)
  next
    case (Returned a)
    show ?thesis
    proof (cases a)
      case None
      with Pair Returned show ?thesis by (simp add: attempt_def)
    next
      case (Some answer)
      obtain r where "executeActions sys cfg answer w1 = Some r"
        using executeActions_total [of sys cfg answer w1] by blast
      with Pair Returned Some show ?thesis
        by (cases r) (simp add: attempt_def Let_def)
    qed
  qed
qed

lemma retryLoop_total:
  "\<exists>r. retryLoop sys cfg analysis cache validationOn maxN st = Some r"
proof (induction sys cfg analysis cache validationOn maxN st rule: retryLoop.induct)
  case (1 sys cfg analysis cache validationOn maxN st)
  show ?case
  proof (cases "retryCount st \<le> maxN")
    case False
    then show ?thesis
      by (simp add: retryLoop.simps [of sys cfg analysis cache validationOn maxN st])
  next
    case le: True
    obtain a lv tr w' where
      att: "attempt sys cfg analysis cache validationOn maxN (retryCount st)
              (lastValidationResult st) (world st) = Some (a, lv, tr, w')"
      using attempt_total by (metis prod_cases4)
    show ?thesis
    proof (cases a)
      case (Done result)
      with le att show ?thesis
        by (simp add: retryLoop.simps [of sys cfg analysis cache validationOn maxN st] Let_def)
    next
      case Retry
      from "1.IH"(1) [OF le att refl refl refl refl Retry] le att Retry show ?thesis
        by (simp add: retryLoop.simps [of sys cfg analysis cache validationOn maxN st] Let_def)
    next
      case (Failed e)
      show ?thesis
      proof (cases "retryCount st < maxN")
        case True
        from "1.IH"(2) [OF le att refl refl refl refl Failed True] le att Failed True
        show ?thesis
          by (simp add: retryLoop.simps [of sys cfg analysis cache validationOn maxN st] Let_def)
      next
        case False
        with le att Failed show ?thesis
          by (simp add: retryLoop.simps [of sys cfg analysis cache validationOn maxN st] Let_def)
      qed
    qed
  qed
qed

lemma retryLoop_not_None:
  "retryLoop sys cfg analysis cache validationOn maxN st \<noteq> None"
  using retryLoop_total [of sys cfg analysis cache validationOn maxN st] by auto

lemma executeSmartAgent_returns:
  "\<exists>result st cs'. executeSmartAgent sys cs cfg w = Some (result, st, cs')"
proof -
  have "executeSmartAgent sys cs cfg w \<noteq> None"
    unfolding executeSmartAgent_def Let_def
    by (simp add: retryLoop_not_None split: prod.splits option.splits outcome.splits)
  then show ?thesis by (cases "executeSmartAgent sys cs cfg w") auto
qed

section \<open>Results about the cleaning of the answer\<close>

lemma trimStart_keeps:
  "m \<noteq> [] \<Longrightarrow> \<not> isSpace (hd m) \<Longrightarrow> trimStart (m @ x) = m @ x"
  by (cases m) (simp_all add: trimStart_def)

lemma trimEnd_keeps:
  assumes "m \<noteq> []" "\<not> isSpace (last m)"
  shows "\<exists>y. trimEnd (m @ x) = m @ y"
proof -
  from assms have "dropWhile isSpace (rev m) = rev m"
    by (cases "rev m") (auto simp: last_rev [symmetric] hd_rev)
  then have "trimEnd (m @ x)
    = (if \<forall>c \<in> set x. isSpace c then m else m @ rev (dropWhile isSpace (rev x)))"
    by (simp add: trimEnd_def dropWhile_append)
  then show ?thesis by (cases "\<forall>c \<in> set x. isSpace c") auto
qed

lemma trim_keeps:
  assumes "m \<noteq> []" "\<not> isSpace (hd m)" "\<not> isSpace (last m)"
  shows "\<exists>y. trim (m @ x) = m @ y"
  using trimEnd_keeps [OF assms(1,3)] trimStart_keeps [OF assms(1,2)]
  by (simp add: trim_def)

lemma bol_none_later:
  "\<not> multiline f \<Longrightarrow> rx_search f (Seq Bol q) (Some c) s i = None"
  by (induction s arbitrary: c i) (simp_all add: atLineStart_def)

lemma bol_skip:
  "\<forall>c \<in> set m. \<not> isLineTerminator c \<Longrightarrow> \<not> isLineTerminator c0 \<Longrightarrow>
   rx_search f (Seq Bol q) (Some c0) (m @ x) i
     = rx_search f (Seq Bol q) (Some (last (c0 # m))) x (i + length m)"
proof (induction m arbitrary: c0 i)
  case Nil
  then show ?case by simp
next
  case (Cons c m)
  then have "rx_search f (Seq Bol q) (Some c0) ((c # m) @ x) i
     = rx_search f (Seq Bol q) (Some c) (m @ x) (Suc i)"
    by (simp add: atLineStart_def)
  also have "\<dots> = rx_search f (Seq Bol q) (Some (last (c # m))) x (Suc i + length m)"
    using Cons.prems by (intro Cons.IH) auto
  finally show ?case by simp
qed

lemma remove_after_prefix:
  assumes "rx_search f r None (m @ x) 0 = rx_search f r p' x (length m)"
  shows "\<exists>y. rx_remove_first f r (m @ x) = m @ y"
proof (cases "rx_search f r p' x (length m)")
  case None
  with assms show ?thesis by (simp add: rx_remove_first_def rx_match_first_def)
next
  case (Some mt)
  then have "length m \<le> index mt" by (rule rx_search_index)
  then have "take (index mt) (m @ x) = m @ take (index mt - length m) x" by simp
  with Some assms show ?thesis by (simp add: rx_remove_first_def rx_match_first_def)
qed

lemma bol_remove_keeps:
  assumes "rx_run f [q] None (c # m @ x) [] = None"
    and "\<forall>d \<in> set (c # m). \<not> isLineTerminator d"
  shows "\<exists>y. rx_remove_first f (Seq Bol q) (c # m @ x) = c # m @ y"
proof -
  from assms(1) have "rx_search f (Seq Bol q) None ((c # m) @ x) 0
      = rx_search f (Seq Bol q) (Some c) (m @ x) (Suc 0)"
    by (simp add: atLineStart_def)
  also have "\<dots> = rx_search f (Seq Bol q) (Some (last (c # m))) x (Suc 0 + length m)"
    using assms(2) by (intro bol_skip) auto
  finally have "rx_search f (Seq Bol q) None ((c # m) @ x) 0
      = rx_search f (Seq Bol q) (Some (last (c # m))) x (length (c # m))" by simp
  from remove_after_prefix [OF this] show ?thesis by simp
qed

lemma bol_unanchored_none:
  assumes "rx_run f [q] None (c # s) [] = None" "\<not> multiline f"
  shows "rx_search f (Seq Bol q) None (c # s) 0 = None"
  using assms by (simp add: atLineStart_def bol_none_later)

lemma lit_run:
  "rx_run f (Lit l # k) p s caps = Some r \<Longrightarrow> \<not> ignoreCase f \<Longrightarrow>
   \<exists>s' p'. s = l @ s' \<and> rx_run f k p' s' caps = Some r"
proof (induction l arbitrary: p s)
  case Nil
  then show ?case by auto
next
  case (Cons c l)
  from Cons.prems obtain x xs where s: "s = x # xs" by (cases s) auto
  with Cons.prems have "c = x" and "rx_run f (Lit l # k) (Some x) xs caps = Some r"
    by (auto simp: chEq_def split: if_splits)
  with Cons.IH [OF this(2) Cons.prems(2)] s show ?case by auto
qed

lemma star_eol_run:
  "rx_run f [Star cc True, Eol] p s caps = Some r \<Longrightarrow> \<not> multiline f \<Longrightarrow>
   \<forall>c \<in> set s. inClass cc c"
proof (induction s arbitrary: p)
  case Nil
  then show ?case by simp
next
  case (Cons x xs)
  from Cons.prems have x: "inClass cc x"
    by (auto simp: atLineEnd_def split: if_splits)
  with Cons.prems have "rx_run f [Star cc True, Eol] (Some x) xs caps = Some r"
    by (auto simp: atLineEnd_def split: option.splits)
  from Cons.IH [OF this Cons.prems(2)] x show ?case by simp
qed

lemma fence_rest_run:
  assumes "rx_run noFlags [Seq (Lit fence) (Seq spaces0 Eol)] p s [] = Some r"
  shows "\<forall>c \<in> set s. fenceTail c"
proof -
  from assms have "rx_run noFlags (Lit fence # [Seq spaces0 Eol]) p s [] = Some r" by simp
  from lit_run [OF this] obtain s' p' where
    s: "s = fence @ s'" and "rx_run noFlags [Seq spaces0 Eol] p' s' [] = Some r"
    by (auto simp: noFlags_def)
  then have "rx_run noFlags [Star (OneOf [ClsSpace]) True, Eol] p' s' [] = Some r"
    by (simp add: spaces0_def)
  from star_eol_run [OF this] have "\<forall>c \<in> set s'. isSpace c"
    by (simp add: noFlags_def)
  with s show ?thesis by (auto simp: fenceTail_def fence_def)
qed

lemma closingFence_run:
  assumes "rx_run noFlags [closingFence] p s [] = Some r"
  shows "\<forall>c \<in> set s. fenceTail c"
proof -
  let ?k = "[Seq (Lit fence) (Seq spaces0 Eol)]"
  from assms have alt: "rx_run noFlags (Lit [nl] # ?k) p s [] = Some r
      \<or> rx_run noFlags ?k p s [] = Some r"
    by (auto simp: closingFence_def split: option.splits)
  then show ?thesis
  proof
    assume "rx_run noFlags (Lit [nl] # ?k) p s [] = Some r"
    from lit_run [OF this] obtain s' p' where
      "s = [nl] @ s'" "rx_run noFlags ?k p' s' [] = Some r"
      by (auto simp: noFlags_def)
    with fence_rest_run [of p' s' r] show ?thesis by (auto simp: fenceTail_def)
  next
    assume "rx_run noFlags ?k p s [] = Some r"
    then show ?thesis by (rule fence_rest_run)
  qed
qed

lemma closingFence_skip:
  "m \<noteq> [] \<Longrightarrow> \<not> fenceTail (last m) \<Longrightarrow>
   rx_search noFlags closingFence p (m @ x) i
     = rx_search noFlags closingFence (Some (last m)) x (i + length m)"
proof (induction m arbitrary: p i)
  case Nil
  then show ?case by simp
next
  case (Cons c m)
  have "rx_run noFlags [closingFence] p ((c # m) @ x) [] = None"
  proof (rule ccontr)
    assume "rx_run noFlags [closingFence] p ((c # m) @ x) [] \<noteq> None"
    then obtain r where "rx_run noFlags [closingFence] p ((c # m) @ x) [] = Some r" by auto
    from closingFence_run [OF this] have "fenceTail (last (c # m))"
      by (metis Un_iff last_in_set list.distinct(1) set_append)
    with Cons.prems show False by simp
  qed
  then have step: "rx_search noFlags closingFence p ((c # m) @ x) i
      = rx_search noFlags closingFence (Some c) (m @ x) (Suc i)"
    by simp
  show ?case
  proof (cases "m = []")
    case True
    with step show ?thesis by simp
  next
    case False
    with Cons.prems have "\<not> fenceTail (last m)" by simp
    from Cons.IH [OF False this] step False show ?thesis by simp
  qed
qed

lemma codeBlock_no_match:
  "rx_match_first noFlags codeBlockPattern (CHR ''<'' # s) = None"
  unfolding rx_match_first_def codeBlockPattern_def
  by (rule bol_unanchored_none) (simp_all add: fence_def chEq_def noFlags_def)

lemma openingFence_no_match:
  "rx_remove_first noFlags openingFence (CHR ''<'' # s) = CHR ''<'' # s"
proof -
  have "rx_search noFlags openingFence None (CHR ''<'' # s) 0 = None"
    unfolding openingFence_def
    by (rule bol_unanchored_none) (simp_all add: fence_def chEq_def noFlags_def)
  then show ?thesis by (simp add: rx_remove_first_def rx_match_first_def)
qed

lemma explanations_keep:
  assumes "\<forall>d \<in> set m. \<not> isLineTerminator d"
  shows "\<exists>y. fold (\<lambda>pattern cleaned. rx_remove_first flagsIM pattern cleaned)
               explanationPatterns (CHR ''<'' # m @ x) = CHR ''<'' # m @ y"
proof -
  have lt: "\<forall>d \<in> set (CHR ''<'' # m). \<not> isLineTerminator d"
    using assms by (simp add: isLineTerminator_def)
  have up: "toUpperAscii (CHR ''<'') = CHR ''<''" "toUpperAscii (CHR ''H'') = CHR ''H''"
    "toUpperAscii (CHR ''F'') = CHR ''F''" "toUpperAscii (CHR ''I'') = CHR ''I''"
    "toUpperAscii (CHR ''R'') = CHR ''R''"
    by (simp_all add: toUpperAscii_def)
  obtain p1 p2 p3 where ps: "explanationPatterns = [Seq Bol p1, Seq Bol p2, Seq Bol p3]"
    and n1: "\<And>s. rx_run flagsIM [p1] None (CHR ''<'' # s) [] = None"
    and n2: "\<And>s. rx_run flagsIM [p2] None (CHR ''<'' # s) [] = None"
    and n3: "\<And>s. rx_run flagsIM [p3] None (CHR ''<'' # s) [] = None"
    by (simp add: explanationPatterns_def chEq_def flagsIM_def up)
  from bol_remove_keeps [OF n1 lt] obtain y1 where
    e1: "rx_remove_first flagsIM (Seq Bol p1) (CHR ''<'' # m @ x) = CHR ''<'' # m @ y1"
    by blast
  from bol_remove_keeps [OF n2 lt] obtain y2 where
    e2: "rx_remove_first flagsIM (Seq Bol p2) (CHR ''<'' # m @ y1) = CHR ''<'' # m @ y2"
    by blast
  from bol_remove_keeps [OF n3 lt] obtain y3 where
    e3: "rx_remove_first flagsIM (Seq Bol p3) (CHR ''<'' # m @ y2) = CHR ''<'' # m @ y3"
    by blast
  have "fold (\<lambda>pattern cleaned. rx_remove_first flagsIM pattern cleaned)
               explanationPatterns (CHR ''<'' # m @ x) = CHR ''<'' # m @ y3"
    unfolding ps by (simp add: e1 e2 e3)
  then show ?thesis by blast
qed

text \<open>
  The defect shown below is not tied to one answer. Whatever follows it, a text from
  \<^verbatim>\<open><\<close> to \<^verbatim>\<open>>\<close> without a line break that opens the answer passes through
  \<open>cleanCodeResponse\<close> untouched: none of its patterns can match inside it.
\<close>

lemma cleanCodeResponse_keeps_leading_marker:
  assumes "hd marker = CHR ''<''" and "last marker = CHR ''>''"
    and "marker \<noteq> []"
    and "\<forall>c \<in> set marker. \<not> isLineTerminator c"
  shows "prefix marker (cleanCodeResponse (marker @ following))"
proof -
  from assms(1,3) obtain m where marker: "marker = CHR ''<'' # m"
    by (cases marker) auto
  from assms(4) marker have lt: "\<forall>d \<in> set m. \<not> isLineTerminator d" by simp
  have sp: "\<not> isSpace (hd marker)" "\<not> isSpace (last marker)"
    using assms(1,2) by (simp_all add: isSpace_def)
  note ne = assms(3)
  have ft: "\<not> fenceTail (last marker)"
    using assms(2) by (simp add: fenceTail_def isSpace_def nl_def)
  from trim_keeps [OF ne sp] obtain y0 where
    c0: "trim (marker @ following) = marker @ y0" by blast
  have c1: "(case rx_match_first noFlags codeBlockPattern (marker @ y0) of
               None \<Rightarrow> marker @ y0
             | Some mt \<Rightarrow> if capture mt 1 \<noteq> [] then capture mt 1 else marker @ y0)
            = marker @ y0"
    using codeBlock_no_match [of "m @ y0"] by (simp add: marker)
  from explanations_keep [OF lt, of y0] obtain y2 where
    c2: "fold (\<lambda>pattern cleaned. rx_remove_first flagsIM pattern cleaned)
           explanationPatterns (marker @ y0) = marker @ y2"
    by (auto simp: marker)
  have c3: "rx_remove_first noFlags openingFence (marker @ y2) = marker @ y2"
    using openingFence_no_match [of "m @ y2"] by (simp add: marker)
  have "rx_search noFlags closingFence None (marker @ y2) 0
     = rx_search noFlags closingFence (Some (last marker)) y2 (length marker)"
    using closingFence_skip [OF ne ft, of None y2 0] by simp
  from remove_after_prefix [OF this] obtain y4 where
    c4: "rx_remove_first noFlags closingFence (marker @ y2) = marker @ y4" by blast
  from trim_keeps [OF ne sp] obtain y5 where
    c5: "trim (marker @ y4) = marker @ y5" by blast
  have "cleanCodeResponse (marker @ following) = marker @ y5"
    by (simp add: cleanCodeResponse_def Let_def c0 c1 c2 c3 c4 c5)
  then show ?thesis by simp
qed

lemma cleanCodeResponse_keeps_leftPadMarker:
  "hd leftPadMarker = CHR ''<'' \<and> last leftPadMarker = CHR ''>'' \<and> leftPadMarker \<noteq> []
   \<and> \<not> list_ex isLineTerminator leftPadMarker
   \<and> prefix leftPadMarker (cleanCodeResponse scenarioD)"
proof -
  have h: "hd leftPadMarker = CHR ''<''" "last leftPadMarker = CHR ''>''"
    "leftPadMarker \<noteq> []" "\<forall>c \<in> set leftPadMarker. \<not> isLineTerminator c"
    by code_simp+
  from cleanCodeResponse_keeps_leading_marker [OF h, of "[nl] @ ''const x = 1;''"] h
  show ?thesis by (simp add: scenarioD_def list_ex_iff)
qed

text \<open>
  The same holds when the request is allowed and executed: the marker stays in the code.
\<close>

lemma executed_marker_stays_in_code:
  "map_option traceErrors
     (runState (executeSmartAgent (scriptedSystem scenarioDAnswers defaultSettings)
        noCaches plainRequest 0)) = Some [None]
   \<and> map_option code
       (runResult (executeSmartAgent (scriptedSystem scenarioDAnswers defaultSettings)
          noCaches plainRequest 0)) = Some (Some scenarioD)"
  by code_simp

text \<open>
  C4. The claim wants every matched marker stripped from the code that a run returns,
  also when the request was denied. The code does not do that: \<open>cleanCodeResponse\<close>,
  which the source documents as extracting pure code, has no pattern for the markers
  that the system prompt of the same file asks the model to write. In the run of
  scenario D with package installation switched off, the parser extracts the install
  request, the executor denies it, and the code of the result is the whole answer,
  beginning with the marker.
\<close>

theorem denied_marker_stays_in_code:
  "map_option (map a_type) (parseActions scenarioD) = Some [install_package]
   \<and> map_option traceErrors
       (runState (executeSmartAgent (scriptedSystem scenarioDAnswers noInstallSettings)
          noCaches plainRequest 0)) = Some [Some ''Action not allowed'']
   \<and> map_option code
       (runResult (executeSmartAgent (scriptedSystem scenarioDAnswers noInstallSettings)
          noCaches plainRequest 0)) = Some (Some scenarioD)
   \<and> prefix leftPadMarker scenarioD"
  by code_simp

end
